theory Spec2Isabelle
  imports Complex_Main "HOL-Library.Log_Nat" "HOL-Library.Monad_Syntax"
begin

section \<open>Vectors, textures and the built-in functions of the shading languages\<close>

text \<open>
  The fragment shaders compute on GLSL/WGSL floats.  They are modelled twice.  The exact
  model of this and the next two sections takes the arithmetic over the mathematical
  reals, without rounding; a quotient by zero has the value 0 there, and no statement
  on the exact model rests on such a quotient.  The binary32 model further below rounds
  after every operation and has no value where the shader has none that is finite; the
  properties that depend on rounding are stated on it.
  A \<open>vec2\<close>, \<open>vec3\<close>, \<open>vec4\<close> is a tuple of components; a texture bound for sampling is
  the function from a normalised coordinate to the sampled colour.
\<close>

type_synonym vec2 = "real \<times> real"
type_synonym vec3 = "real \<times> real \<times> real"
type_synonym vec4 = "real \<times> real \<times> real \<times> real"
type_synonym sampler2D = "vec2 \<Rightarrow> vec4"

text \<open>\<open>floor\<close> of the shading languages returns a float.\<close>

definition floor_f :: "real \<Rightarrow> real" where
  "floor_f v = of_int \<lfloor>v\<rfloor>"

text \<open>\<open>fract(v)\<close> is \<open>v - floor(v)\<close> in GLSL and in WGSL.\<close>

definition fract :: "real \<Rightarrow> real" where
  "fract v = v - floor_f v"

definition floor2 :: "vec2 \<Rightarrow> vec2" where
  "floor2 v = (floor_f (fst v), floor_f (snd v))"

definition fract2 :: "vec2 \<Rightarrow> vec2" where
  "fract2 v = (fract (fst v), fract (snd v))"

text \<open>Componentwise product and quotient of two \<open>vec2\<close>, and a \<open>vec2\<close> over a scalar.\<close>

definition mul2 :: "vec2 \<Rightarrow> vec2 \<Rightarrow> vec2" where
  "mul2 v w = (fst v * fst w, snd v * snd w)"

definition div2 :: "vec2 \<Rightarrow> vec2 \<Rightarrow> vec2" where
  "div2 v w = (fst v / fst w, snd v / snd w)"

definition div2s :: "vec2 \<Rightarrow> real \<Rightarrow> vec2" where
  "div2s v k = (fst v / k, snd v / k)"

definition dot3 :: "vec3 \<Rightarrow> vec3 \<Rightarrow> real" where
  "dot3 v w = (case v of (v1, v2, v3) \<Rightarrow> case w of (w1, w2, w3) \<Rightarrow>
     v1 * w1 + v2 * w2 + v3 * w3)"

text \<open>A \<open>vec3\<close> times a scalar, as in \<open>sceneColor.rgb * fontColor.r\<close>.\<close>

definition scale3 :: "vec3 \<Rightarrow> real \<Rightarrow> vec3" where
  "scale3 v k = (case v of (v1, v2, v3) \<Rightarrow> (v1 * k, v2 * k, v3 * k))"

text \<open>The swizzles \<open>.rgb\<close>, \<open>.r\<close>, \<open>.a\<close> and the constructor \<open>vec4(rgb, a)\<close>.\<close>

definition rgb :: "vec4 \<Rightarrow> vec3" where
  "rgb c = (case c of (r, g, b, a) \<Rightarrow> (r, g, b))"

definition red :: "vec4 \<Rightarrow> real" where
  "red c = (case c of (r, g, b, a) \<Rightarrow> r)"

definition alpha :: "vec4 \<Rightarrow> real" where
  "alpha c = (case c of (r, g, b, a) \<Rightarrow> a)"

definition vec4_of :: "vec3 \<Rightarrow> real \<Rightarrow> vec4" where
  "vec4_of v a = (case v of (r, g, b) \<Rightarrow> (r, g, b, a))"

section \<open>The character ramp and the shader parameters\<close>

definition CHAR_SET :: string where
  "CHAR_SET = ''.:-=+*%#@''"

text \<open>
  \<open>AsciiParams\<close> is the uniform struct of the WGSL shader.  The GLSL shader declares the
  same five uniforms and the two textures \<open>tDiffuse\<close> and \<open>tFont\<close> side by side; its
  uniform block is the extension of \<open>AsciiParams\<close> by the two textures.  The type of a
  texture is a parameter: a sampling function inside a shader, a handle inside the
  renderer.
\<close>

record AsciiParams =
  uCharCount :: real
  uFontSize :: real
  uResolution :: vec2
  uColor :: vec3
  uBgColor :: vec3

record 't AsciiShader_uniforms = AsciiParams +
  tDiffuse :: 't
  tFont :: 't

text \<open>
  The local variables of a fragment shader invocation, in the order in which the shader
  computes them, and the colour it writes.
\<close>

record fragment =
  gridDims :: vec2
  cellUv :: vec2
  sceneColor :: vec4
  luminance :: real
  charIndex :: real
  uvInCell :: vec2
  fontU :: real
  fontV :: real
  fontColor :: vec4
  FragColor :: vec4

section \<open>The composite pass: the two fragment shaders\<close>

text \<open>\<open>AsciiShader.fragmentShader\<close> of \<open>ascii-shader.ts\<close> (GLSL), at the varying \<open>vUv\<close>.\<close>

definition AsciiShader_fragmentShader :: "sampler2D AsciiShader_uniforms \<Rightarrow> vec2 \<Rightarrow> fragment" where
  "AsciiShader_fragmentShader u vUv =
    (let gridDims = div2s (uResolution u) (uFontSize u);
         cellUv = div2 (floor2 (mul2 vUv gridDims)) gridDims;
         sceneColor = tDiffuse u cellUv;
         luminance = 1 - dot3 (rgb sceneColor) (0.299, 0.587, 0.114);
         charIndex = floor_f (luminance * (uCharCount u - 1));
         uvInCell = fract2 (mul2 vUv gridDims);
         fontU = (charIndex + fst uvInCell) / uCharCount u;
         fontV = snd uvInCell;
         fontColor = tFont u (fontU, fontV)
     in \<lparr>gridDims = gridDims, cellUv = cellUv, sceneColor = sceneColor,
         luminance = luminance, charIndex = charIndex, uvInCell = uvInCell,
         fontU = fontU, fontV = fontV, fontColor = fontColor,
         FragColor = vec4_of (uColor u) (red fontColor * alpha sceneColor)\<rparr>)"

text \<open>
  \<open>asciiFragmentShader\<close> of the WebGPU flavour (WGSL), at the interpolated \<open>uv\<close>;
  \<open>textureSample\<close> through the bound sampler is the sampling function of the texture.
\<close>

definition asciiFragmentShader :: "sampler2D \<Rightarrow> sampler2D \<Rightarrow> AsciiParams \<Rightarrow> vec2 \<Rightarrow> fragment" where
  "asciiFragmentShader tDiffuse' tFont' params uv =
    (let gridDims = div2s (uResolution params) (uFontSize params);
         cellUv = div2 (floor2 (mul2 uv gridDims)) gridDims;
         sceneColor = tDiffuse' cellUv;
         luminance = 1 - dot3 (rgb sceneColor) (0.299, 0.587, 0.114);
         charIndex = floor_f (luminance * (uCharCount params - 1));
         uvInCell = fract2 (mul2 uv gridDims);
         fontU = (charIndex + fst uvInCell) / uCharCount params;
         fontV = snd uvInCell;
         fontColor = tFont' (fontU, fontV)
     in \<lparr>gridDims = gridDims, cellUv = cellUv, sceneColor = sceneColor,
         luminance = luminance, charIndex = charIndex, uvInCell = uvInCell,
         fontU = fontU, fontV = fontV, fontColor = fontColor,
         FragColor = vec4_of (scale3 (rgb sceneColor) (red fontColor))
                       (alpha sceneColor * red fontColor)\<rparr>)"

section \<open>Binary32 arithmetic\<close>

text \<open>
  A finite binary32 number is \<open>m * 2 ^ e\<close> with a significand of at most 24 bits and
  \<open>e \<ge> - 149\<close>.  \<open>rne\<close> rounds a real to the nearest integer, to the even one in a tie.
  \<open>ulp_exp x\<close> is the exponent of the unit in the last place at \<open>x\<close>: 23 below the
  binary exponent of \<open>x\<close>, and \<open>- 149\<close> in the subnormal range.  \<open>rnd\<close> is rounding to
  nearest, ties to even, with the exponent unbounded above; \<open>fin\<close> is the result of an
  operation whose exact value is \<open>x\<close>: the rounded value when it is finite, \<open>None\<close> when
  the operation overflows.  This is the arithmetic of IEEE 754: every operation is
  correctly rounded and subnormal numbers are kept.  The inputs of a shader (uniforms,
  position, texture samples) are taken as they are given.
\<close>

definition rne :: "real \<Rightarrow> int" where
  "rne q = (let f = \<lfloor>q\<rfloor>; d = q - of_int f
            in if d < 1 / 2 then f else if 1 / 2 < d then f + 1
               else if even f then f else f + 1)"

definition ulp_exp :: "real \<Rightarrow> int" where
  "ulp_exp x = max 0 (bitlen \<lfloor>\<bar>x\<bar> * 2 ^ 149\<rfloor> - 24) - 149"

definition rnd :: "real \<Rightarrow> real" where
  "rnd x = of_int (rne (x / 2 powi ulp_exp x)) * 2 powi ulp_exp x"

definition fin :: "real \<Rightarrow> real option" where
  "fin x = (if \<bar>rnd x\<bar> < 2 ^ 128 then Some (rnd x) else None)"

text \<open>
  The four operations.  A division by zero gives an infinity or a NaN; like an overflow
  it is \<open>None\<close>, and so is every value computed from it.
\<close>

definition fadd :: "real \<Rightarrow> real \<Rightarrow> real option" where
  "fadd a b = fin (a + b)"

definition fsub :: "real \<Rightarrow> real \<Rightarrow> real option" where
  "fsub a b = fin (a - b)"

definition fmul :: "real \<Rightarrow> real \<Rightarrow> real option" where
  "fmul a b = fin (a * b)"

definition fdiv :: "real \<Rightarrow> real \<Rightarrow> real option" where
  "fdiv a b = (if b = 0 then None else fin (a / b))"

text \<open>\<open>fract\<close>, and the operations on vectors, component by component.\<close>

definition fract32 :: "real \<Rightarrow> real option" where
  "fract32 v = fsub v (floor_f v)"

definition fract2_32 :: "vec2 \<Rightarrow> vec2 option" where
  "fract2_32 v = do { a \<leftarrow> fract32 (fst v); b \<leftarrow> fract32 (snd v); Some (a, b) }"

definition mul2_32 :: "vec2 \<Rightarrow> vec2 \<Rightarrow> vec2 option" where
  "mul2_32 v w = do { a \<leftarrow> fmul (fst v) (fst w); b \<leftarrow> fmul (snd v) (snd w); Some (a, b) }"

definition div2_32 :: "vec2 \<Rightarrow> vec2 \<Rightarrow> vec2 option" where
  "div2_32 v w = do { a \<leftarrow> fdiv (fst v) (fst w); b \<leftarrow> fdiv (snd v) (snd w); Some (a, b) }"

definition div2s_32 :: "vec2 \<Rightarrow> real \<Rightarrow> vec2 option" where
  "div2s_32 v k = do { a \<leftarrow> fdiv (fst v) k; b \<leftarrow> fdiv (snd v) k; Some (a, b) }"

definition dot3_32 :: "vec3 \<Rightarrow> vec3 \<Rightarrow> real option" where
  "dot3_32 v w = (case v of (v1, v2, v3) \<Rightarrow> case w of (w1, w2, w3) \<Rightarrow>
     do { a \<leftarrow> fmul v1 w1; b \<leftarrow> fmul v2 w2; c \<leftarrow> fmul v3 w3;
          s \<leftarrow> fadd a b; fadd s c })"

definition scale3_32 :: "vec3 \<Rightarrow> real \<Rightarrow> vec3 option" where
  "scale3_32 v k = (case v of (v1, v2, v3) \<Rightarrow>
     do { a \<leftarrow> fmul v1 k; b \<leftarrow> fmul v2 k; c \<leftarrow> fmul v3 k; Some (a, b, c) })"

text \<open>The float literals \<open>0.299\<close>, \<open>0.587\<close>, \<open>0.114\<close>.\<close>

definition luma_weights :: vec3 where
  "luma_weights = (rnd 0.299, rnd 0.587, rnd 0.114)"

text \<open>
  The value of \<open>dot(sceneColor.rgb, vec3(0.299, 0.587, 0.114))\<close> as binary32 computes
  it, products first, then the sum from the left; the scaled position \<open>vUv * gridDims\<close>;
  and the relations that hold between the local variables of a shader run in which
  every operation gave a finite result.
\<close>

definition brightness32 :: "vec4 \<Rightarrow> real" where
  "brightness32 c = (case c of (r, g, b, a) \<Rightarrow> case luma_weights of (w1, w2, w3) \<Rightarrow>
     rnd (rnd (rnd (r * w1) + rnd (g * w2)) + rnd (b * w3)))"

definition scaled32 :: "vec2 \<Rightarrow> vec2 \<Rightarrow> vec2" where
  "scaled32 v g = (rnd (fst v * fst g), rnd (snd v * snd g))"

definition locals32 :: "real \<Rightarrow> vec2 \<Rightarrow> real \<Rightarrow> vec2 \<Rightarrow> fragment \<Rightarrow> bool" where
  "locals32 N res fs v f \<longleftrightarrow>
     fs \<noteq> 0 \<and> N \<noteq> 0 \<and>
     gridDims f = (rnd (fst res / fs), rnd (snd res / fs)) \<and>
     uvInCell f =
       (rnd (fst (scaled32 v (gridDims f)) - floor_f (fst (scaled32 v (gridDims f)))),
        rnd (snd (scaled32 v (gridDims f)) - floor_f (snd (scaled32 v (gridDims f))))) \<and>
     luminance f = rnd (1 - brightness32 (sceneColor f)) \<and>
     charIndex f = floor_f (rnd (luminance f * rnd (N - 1))) \<and>
     fontU f = rnd (rnd (charIndex f + fst (uvInCell f)) / N) \<and>
     fontV f = snd (uvInCell f)"

text \<open>
  \<open>AsciiShader.fragmentShader\<close> (GLSL) in binary32 arithmetic: the statements of the
  shader in their order, every arithmetic operation rounded.  \<open>floor\<close> of a binary32
  number is a binary32 number and is not rounded.  The result is \<open>None\<close> when some
  operation is not finite.
\<close>

definition AsciiShader_fragmentShader_f32 ::
    "sampler2D AsciiShader_uniforms \<Rightarrow> vec2 \<Rightarrow> fragment option" where
  "AsciiShader_fragmentShader_f32 u vUv =
    do { gridDims \<leftarrow> div2s_32 (uResolution u) (uFontSize u);
         scaled \<leftarrow> mul2_32 vUv gridDims;
         cellUv \<leftarrow> div2_32 (floor2 scaled) gridDims;
         let sceneColor = tDiffuse u cellUv;
         brightness \<leftarrow> dot3_32 (rgb sceneColor) luma_weights;
         luminance \<leftarrow> fsub 1 brightness;
         levels \<leftarrow> fsub (uCharCount u) 1;
         level \<leftarrow> fmul luminance levels;
         let charIndex = floor_f level;
         uvInCell \<leftarrow> fract2_32 scaled;
         position \<leftarrow> fadd charIndex (fst uvInCell);
         fontU \<leftarrow> fdiv position (uCharCount u);
         let fontV = snd uvInCell;
         let fontColor = tFont u (fontU, fontV);
         a \<leftarrow> fmul (red fontColor) (alpha sceneColor);
         Some \<lparr>gridDims = gridDims, cellUv = cellUv, sceneColor = sceneColor,
                luminance = luminance, charIndex = charIndex, uvInCell = uvInCell,
                fontU = fontU, fontV = fontV, fontColor = fontColor,
                FragColor = vec4_of (uColor u) a\<rparr> }"

text \<open>\<open>asciiFragmentShader\<close> (WGSL) in binary32 arithmetic.\<close>

definition asciiFragmentShader_f32 ::
    "sampler2D \<Rightarrow> sampler2D \<Rightarrow> AsciiParams \<Rightarrow> vec2 \<Rightarrow> fragment option" where
  "asciiFragmentShader_f32 tDiffuse' tFont' params uv =
    do { gridDims \<leftarrow> div2s_32 (uResolution params) (uFontSize params);
         scaled \<leftarrow> mul2_32 uv gridDims;
         cellUv \<leftarrow> div2_32 (floor2 scaled) gridDims;
         let sceneColor = tDiffuse' cellUv;
         brightness \<leftarrow> dot3_32 (rgb sceneColor) luma_weights;
         luminance \<leftarrow> fsub 1 brightness;
         levels \<leftarrow> fsub (uCharCount params) 1;
         level \<leftarrow> fmul luminance levels;
         let charIndex = floor_f level;
         uvInCell \<leftarrow> fract2_32 scaled;
         position \<leftarrow> fadd charIndex (fst uvInCell);
         fontU \<leftarrow> fdiv position (uCharCount params);
         let fontV = snd uvInCell;
         let fontColor = tFont' (fontU, fontV);
         tinted \<leftarrow> scale3_32 (rgb sceneColor) (red fontColor);
         a \<leftarrow> fmul (alpha sceneColor) (red fontColor);
         Some \<lparr>gridDims = gridDims, cellUv = cellUv, sceneColor = sceneColor,
                luminance = luminance, charIndex = charIndex, uvInCell = uvInCell,
                fontU = fontU, fontV = fontV, fontColor = fontColor,
                FragColor = vec4_of tinted a\<rparr> }"


text \<open>The binary32 value of an 8-bit normalised texture channel.\<close>

definition unorm8 :: "nat \<Rightarrow> real" where
  "unorm8 k = rnd (real k / 255)"

section \<open>The font atlas builder\<close>

datatype error = Error string

text \<open>
  The canvas element together with its 2D context: the size of the bitmap, the drawing
  state of the context, and the drawing calls made so far, oldest first.
\<close>

datatype draw_call =
    FillRect string real real real real
  | FillText string string string string char real real

record canvas =
  canvas_width :: nat
  canvas_height :: nat
  fillStyle :: string
  font :: string
  textAlign :: string
  textBaseline :: string
  drawn :: "draw_call list"

text \<open>
  What the code reads from the browser: whether \<open>canvas.getContext('2d')\<close> yields a
  context (it is \<open>null\<close> otherwise), whether a WebGL context can be created, and
  \<open>window.devicePixelRatio\<close>.
\<close>

record browser =
  context2d :: bool
  webgl :: bool
  devicePixelRatio :: real

text \<open>\<open>document.createElement('canvas')\<close>: a 300 x 150 canvas in the default state.\<close>

definition createElement_canvas :: canvas where
  "createElement_canvas =
     \<lparr>canvas_width = 300, canvas_height = 150, fillStyle = ''#000000'',
      font = ''10px sans-serif'', textAlign = ''start'', textBaseline = ''alphabetic'',
      drawn = []\<rparr>"

definition fillRect :: "real \<Rightarrow> real \<Rightarrow> real \<Rightarrow> real \<Rightarrow> canvas \<Rightarrow> canvas" where
  "fillRect x y w h cv = cv\<lparr>drawn := drawn cv @ [FillRect (fillStyle cv) x y w h]\<rparr>"

definition fillText :: "char \<Rightarrow> real \<Rightarrow> real \<Rightarrow> canvas \<Rightarrow> canvas" where
  "fillText c x y cv =
     cv\<lparr>drawn := drawn cv @
        [FillText (fillStyle cv) (font cv) (textAlign cv) (textBaseline cv) c x y]\<rparr>"

text \<open>
  The loop \<open>for (let i = 0; i < charCount; i++)\<close> of \<open>createAsciiTexture\<close>, from the
  current \<open>i\<close>: character \<open>i\<close> is drawn centred in cell \<open>i\<close> of the strip.
\<close>

function draw_chars :: "nat \<Rightarrow> nat \<Rightarrow> nat \<Rightarrow> canvas \<Rightarrow> canvas" where
  "draw_chars i charCount fontSize cv =
     (if i < charCount
      then draw_chars (i + 1) charCount fontSize
             (fillText (CHAR_SET ! i) (real (i * fontSize) + real fontSize / 2)
                (real fontSize / 2) cv)
      else cv)"
  by pat_completeness auto
termination
  by (relation "measure (\<lambda>(i, charCount, fontSize, cv). charCount - i)") auto

declare draw_chars.simps [simp del]

datatype filter = NearestFilter | LinearFilter

text \<open>A \<open>THREE.CanvasTexture\<close>: the canvas it shows and the settings the builder writes.\<close>

record Texture =
  tex_image :: canvas
  minFilter :: filter
  magFilter :: filter
  generateMipmaps :: bool

text \<open>\<open>createAsciiTexture\<close> of \<open>ascii-shader.ts\<close>.\<close>

definition createAsciiTexture :: "browser \<Rightarrow> error + Texture" where
  "createAsciiTexture env =
    (let fontSize = 64;
         canvas = createElement_canvas
     in if \<not> context2d env
        then Inl (Error ''Could not create 2D context for ASCII texture'')
        else
          let charCount = length CHAR_SET;
              canvas = canvas\<lparr>canvas_width := charCount * fontSize\<rparr>;
              canvas = canvas\<lparr>canvas_height := fontSize\<rparr>;
              canvas = canvas\<lparr>fillStyle := ''#000000''\<rparr>;
              canvas = fillRect 0 0 (real (canvas_width canvas)) (real (canvas_height canvas)) canvas;
              canvas = canvas\<lparr>font := ''bold 64px monospace''\<rparr>;
              canvas = canvas\<lparr>textAlign := ''center''\<rparr>;
              canvas = canvas\<lparr>textBaseline := ''middle''\<rparr>;
              canvas = canvas\<lparr>fillStyle := ''#ffffff''\<rparr>;
              canvas = draw_chars 0 charCount fontSize canvas
          in Inr \<lparr>tex_image = canvas, minFilter = NearestFilter, magFilter = NearestFilter,
                  generateMipmaps = False\<rparr>)"

datatype GPUTextureUsage = TEXTURE_BINDING | COPY_DST | RENDER_ATTACHMENT

text \<open>
  A \<open>GPUTexture\<close>: the descriptor it was created with and the image copied into it by
  \<open>copyExternalImageToTexture\<close>.
\<close>

record GPUTexture =
  gpu_size :: "nat \<times> nat \<times> nat"
  format :: string
  usage :: "GPUTextureUsage list"
  copied :: canvas

text \<open>\<open>createAsciiTexture(device)\<close> of the WebGPU flavour.\<close>

definition createAsciiTexture_gpu :: "browser \<Rightarrow> error + GPUTexture" where
  "createAsciiTexture_gpu env =
    (let fontSize = 64;
         charCount = length CHAR_SET;
         width = charCount * fontSize;
         height = fontSize;
         canvas = createElement_canvas;
         canvas = canvas\<lparr>canvas_width := width\<rparr>;
         canvas = canvas\<lparr>canvas_height := height\<rparr>
     in if \<not> context2d env
        then Inl (Error ''Could not create 2D context for ASCII texture'')
        else
          let canvas = canvas\<lparr>fillStyle := ''#000000''\<rparr>;
              canvas = fillRect 0 0 (real width) (real height) canvas;
              canvas = canvas\<lparr>font := ''bold 64px monospace''\<rparr>;
              canvas = canvas\<lparr>textAlign := ''center''\<rparr>;
              canvas = canvas\<lparr>textBaseline := ''middle''\<rparr>;
              canvas = canvas\<lparr>fillStyle := ''#ffffff''\<rparr>;
              canvas = draw_chars 0 charCount fontSize canvas
          in Inr \<lparr>gpu_size = (width, height, 1), format = ''rgba8unorm'',
                  usage = [TEXTURE_BINDING, COPY_DST, RENDER_ATTACHMENT],
                  copied = canvas\<rparr>)"

section \<open>The three.js renderer: initialisation, resize and frames\<close>

text \<open>
  What a texture uniform of the material holds: nothing yet, the texture of the
  renderer's render target, or the font atlas.
\<close>

datatype texture_handle = NullTexture | RenderTargetTexture | FontTexture Texture

text \<open>\<open>AsciiShader.uniforms\<close>: the initial values of the uniforms.\<close>

definition AsciiShader_uniforms :: "texture_handle AsciiShader_uniforms" where
  "AsciiShader_uniforms =
     \<lparr>uCharCount = real (length CHAR_SET), uFontSize = 10, uResolution = (0, 0),
      uColor = (1, 1, 1), uBgColor = (0, 0, 0),
      tDiffuse = NullTexture, tFont = NullTexture\<rparr>"

record HTMLElement =
  clientWidth :: real
  clientHeight :: real

text \<open>
  The numbers of the renderer are JavaScript numbers; they are taken as reals.  A
  JavaScript quotient is not a finite number when the divisor is zero (\<open>Infinity\<close> or
  \<open>NaN\<close>, no exception); \<open>None\<close> stands for these.
\<close>

definition js_div :: "real \<Rightarrow> real \<Rightarrow> real option" where
  "js_div a b = (if b = 0 then None else Some (a / b))"

record PerspectiveCamera =
  aspect :: "real option"
  position_z :: real

record WebGLRenderer =
  renderer_size :: vec2
  pixelRatio :: real

record WebGLRenderTarget =
  rt_width :: real
  rt_height :: real

record ShaderMaterial =
  uniforms :: "texture_handle AsciiShader_uniforms"

record Mesh =
  rotation_x :: real
  rotation_y :: real

text \<open>
  The fields of \<open>ThreeRenderer\<close>; \<open>None\<close> is \<open>null\<close>.  Objects whose contents play no role
  here (scenes, post camera, geometry, mesh material) are kept as present or absent
  only.  A pair is an object with the fields \<open>x\<close> and \<open>y\<close>.
\<close>

record ThreeRenderer =
  container :: "HTMLElement option"
  renderer :: "WebGLRenderer option"
  scene :: "unit option"
  camera :: "PerspectiveCamera option"
  cube :: "Mesh option"
  renderTarget :: "WebGLRenderTarget option"
  postScene :: "unit option"
  postCamera :: "unit option"
  postMaterial :: "ShaderMaterial option"
  geometry :: "unit option"
  material :: "unit option"
  isDragging :: bool
  previousMousePosition :: vec2
  targetRotation :: vec2
  currentRotation :: vec2

text \<open>\<open>new ThreeRenderer()\<close>: the field initialisers of the class.\<close>

definition new_ThreeRenderer :: ThreeRenderer where
  "new_ThreeRenderer =
     \<lparr>container = None, renderer = None, scene = None, camera = None, cube = None,
      renderTarget = None, postScene = None, postCamera = None, postMaterial = None,
      geometry = None, material = None,
      isDragging = False, previousMousePosition = (0, 0), targetRotation = (0, 0),
      currentRotation = (0, 0)\<rparr>"

text \<open>
  \<open>ThreeRenderer.initialize\<close>.  The fields are assigned in the order of the source.
  Two calls can throw: \<open>new THREE.WebGLRenderer\<close> when no WebGL context can be created,
  and \<open>createAsciiTexture\<close>.  The renderer then keeps what was assigned before, and the
  exception is returned beside it.  The listeners registered by \<open>setupInteraction\<close> are
  not part of the state.
\<close>

definition initialize :: "browser \<Rightarrow> HTMLElement \<Rightarrow> ThreeRenderer \<Rightarrow> ThreeRenderer \<times> error option" where
  "initialize env el this =
    (let this = this\<lparr>container := Some el\<rparr>;
         this = this\<lparr>scene := Some ()\<rparr>;
         this = this\<lparr>camera := Some \<lparr>aspect = Some 1, position_z = 2.8\<rparr>\<rparr>
     in if \<not> webgl env then (this, Some (Error ''Error creating WebGL context.''))
        else
          let this = this\<lparr>renderer := Some \<lparr>renderer_size = (clientWidth el, clientHeight el),
                                             pixelRatio = devicePixelRatio env\<rparr>\<rparr>;
              this = this\<lparr>material := Some ()\<rparr>;
              this = this\<lparr>geometry := Some ()\<rparr>;
              this = this\<lparr>cube := Some \<lparr>rotation_x = 0, rotation_y = 0\<rparr>\<rparr>;
              this = this\<lparr>renderTarget :=
                       Some \<lparr>rt_width = clientWidth el * devicePixelRatio env,
                             rt_height = clientHeight el * devicePixelRatio env\<rparr>\<rparr>;
              this = this\<lparr>postCamera := Some ()\<rparr>;
              this = this\<lparr>postScene := Some ()\<rparr>
          in case createAsciiTexture env of
               Inl e \<Rightarrow> (this, Some e)
             | Inr fontTexture \<Rightarrow>
                 let u = AsciiShader_uniforms;
                     u = u\<lparr>tDiffuse := RenderTargetTexture\<rparr>;
                     u = u\<lparr>tFont := FontTexture fontTexture\<rparr>;
                     u = u\<lparr>uResolution := (clientWidth el * devicePixelRatio env,
                                           clientHeight el * devicePixelRatio env)\<rparr>;
                     u = u\<lparr>uFontSize := 10 * devicePixelRatio env\<rparr>
                 in (this\<lparr>postMaterial := Some \<lparr>uniforms = u\<rparr>\<rparr>, None))"

text \<open>\<open>ThreeRenderer.resize\<close>.  No statement of it throws.\<close>

definition resize :: "browser \<Rightarrow> real \<Rightarrow> real \<Rightarrow> ThreeRenderer \<Rightarrow> ThreeRenderer" where
  "resize env width height this =
    (case (renderer this, camera this, renderTarget this, postMaterial this) of
       (Some r, Some c, Some rt, Some pm) \<Rightarrow>
         this\<lparr>camera := Some (c\<lparr>aspect := js_div width height\<rparr>),
              renderer := Some (r\<lparr>renderer_size := (width, height)\<rparr>),
              renderTarget := Some (rt\<lparr>rt_width := width * devicePixelRatio env,
                                        rt_height := height * devicePixelRatio env\<rparr>),
              postMaterial := Some (pm\<lparr>uniforms := (uniforms pm)
                                \<lparr>uResolution := (width * devicePixelRatio env,
                                                 height * devicePixelRatio env)\<rparr>\<rparr>)\<rparr>
     | _ \<Rightarrow> this)"


text \<open>
  \<open>main.ts\<close> of the three.js flavour: when the \<open>#app\<close> element exists, a renderer is
  created and initialised, then the resize listener is registered and the render loop
  is started.  An exception of \<open>initialize\<close> is not caught: the statements after it do
  not run.
\<close>

record page =
  the_renderer :: "ThreeRenderer option"
  resize_listener :: bool
  render_loop :: bool
  uncaught :: "error option"

definition main :: "browser \<Rightarrow> HTMLElement option \<Rightarrow> page" where
  "main env app =
    (case app of
       None \<Rightarrow> \<lparr>the_renderer = None, resize_listener = False, render_loop = False,
                 uncaught = None\<rparr>
     | Some el \<Rightarrow>
         (case initialize env el new_ThreeRenderer of
            (r, Some e) \<Rightarrow> \<lparr>the_renderer = Some r, resize_listener = False,
                            render_loop = False, uncaught = Some e\<rparr>
          | (r, None) \<Rightarrow> \<lparr>the_renderer = Some r, resize_listener = True,
                          render_loop = True, uncaught = None\<rparr>))"



text \<open>The guard of \<open>resize\<close> passes: the four objects it tests exist.\<close>

definition initialised :: "ThreeRenderer \<Rightarrow> bool" where
  "initialised this \<longleftrightarrow>
     renderer this \<noteq> None \<and> camera this \<noteq> None \<and> renderTarget this \<noteq> None \<and>
     postMaterial this \<noteq> None"

section \<open>Brightness, and sample inputs\<close>

text \<open>
  The weighted sum that both shaders subtract from one: the brightness of a scene
  sample before the inversion.
\<close>

definition luma :: "vec4 \<Rightarrow> real" where
  "luma c = dot3 (rgb c) (0.299, 0.587, 0.114)"

text \<open>
  Concrete inputs at which the theorems below are instantiated: a 640 x 480 target with
  cells of 10 pixels and the ramp of nine characters, a scene of one colour \<open>sc\<close> and a
  font atlas of one colour \<open>fc\<close>.
\<close>

definition sample_uniforms :: "vec4 \<Rightarrow> vec4 \<Rightarrow> sampler2D AsciiShader_uniforms" where
  "sample_uniforms sc fc =
     \<lparr>uCharCount = 9, uFontSize = 10, uResolution = (640, 480),
      uColor = (1, 1, 1), uBgColor = (0, 0, 0),
      tDiffuse = (\<lambda>_. sc), tFont = (\<lambda>_. fc)\<rparr>"

definition sample_params :: AsciiParams where
  "sample_params =
     \<lparr>uCharCount = 9, uFontSize = 10, uResolution = (640, 480),
      uColor = (1, 1, 1), uBgColor = (0, 0, 0)\<rparr>"



text \<open>The WGSL parameter struct that carries the values of the five GLSL uniforms.\<close>

definition params_of :: "sampler2D AsciiShader_uniforms \<Rightarrow> AsciiParams" where
  "params_of u =
     \<lparr>uCharCount = uCharCount u, uFontSize = uFontSize u, uResolution = uResolution u,
      uColor = uColor u, uBgColor = uBgColor u\<rparr>"

text \<open>
  The size of the intermediate scene buffer and the resolution uniform of the composite
  pass, when the render target and the material exist.
\<close>

definition buffer_size :: "ThreeRenderer \<Rightarrow> vec2 option" where
  "buffer_size this = map_option (\<lambda>rt. (rt_width rt, rt_height rt)) (renderTarget this)"

definition resolution_param :: "ThreeRenderer \<Rightarrow> vec2 option" where
  "resolution_param this = map_option (\<lambda>pm. uResolution (uniforms pm)) (postMaterial this)"

text \<open>
  Concrete browsers and concrete containers: device pixel ratio 2, with and without a
  2D context, an element of 800 x 600 and one of 0 x 0; \<open>sample_renderer\<close> is a renderer
  after a successful \<open>initialize\<close>, \<open>sample_page\<close> the page after \<open>main\<close>;
  \<open>uniform_texture c\<close> is a texture of the one colour \<open>c\<close>.
\<close>

definition sample_browser :: browser where
  "sample_browser = \<lparr>context2d = True, webgl = True, devicePixelRatio = 2\<rparr>"

definition no_context_browser :: browser where
  "no_context_browser = \<lparr>context2d = False, webgl = True, devicePixelRatio = 2\<rparr>"

definition sample_element :: HTMLElement where
  "sample_element = \<lparr>clientWidth = 800, clientHeight = 600\<rparr>"

definition sample_renderer :: ThreeRenderer where
  "sample_renderer = fst (initialize sample_browser sample_element new_ThreeRenderer)"




section \<open>The local variables of the two shaders\<close>

text \<open>Each local variable of the GLSL shader, as the shader computes it.\<close>

lemma glsl_fields:
  "gridDims (AsciiShader_fragmentShader u v) = div2s (uResolution u) (uFontSize u)"
  "cellUv (AsciiShader_fragmentShader u v) =
     div2 (floor2 (mul2 v (gridDims (AsciiShader_fragmentShader u v))))
       (gridDims (AsciiShader_fragmentShader u v))"
  "sceneColor (AsciiShader_fragmentShader u v) = tDiffuse u (cellUv (AsciiShader_fragmentShader u v))"
  "luminance (AsciiShader_fragmentShader u v) = 1 - luma (sceneColor (AsciiShader_fragmentShader u v))"
  "charIndex (AsciiShader_fragmentShader u v) =
     floor_f (luminance (AsciiShader_fragmentShader u v) * (uCharCount u - 1))"
  "uvInCell (AsciiShader_fragmentShader u v) =
     fract2 (mul2 v (gridDims (AsciiShader_fragmentShader u v)))"
  "fontU (AsciiShader_fragmentShader u v) =
     (charIndex (AsciiShader_fragmentShader u v) + fst (uvInCell (AsciiShader_fragmentShader u v)))
       / uCharCount u"
  "fontV (AsciiShader_fragmentShader u v) = snd (uvInCell (AsciiShader_fragmentShader u v))"
  "fontColor (AsciiShader_fragmentShader u v) =
     tFont u (fontU (AsciiShader_fragmentShader u v), fontV (AsciiShader_fragmentShader u v))"
  "FragColor (AsciiShader_fragmentShader u v) =
     vec4_of (uColor u) (red (fontColor (AsciiShader_fragmentShader u v))
        * alpha (sceneColor (AsciiShader_fragmentShader u v)))"
  by (simp_all add: AsciiShader_fragmentShader_def Let_def luma_def)

text \<open>Each local variable of the WGSL shader, as the shader computes it.\<close>

lemma wgsl_fields:
  "gridDims (asciiFragmentShader td tf p v) = div2s (uResolution p) (uFontSize p)"
  "cellUv (asciiFragmentShader td tf p v) =
     div2 (floor2 (mul2 v (gridDims (asciiFragmentShader td tf p v))))
       (gridDims (asciiFragmentShader td tf p v))"
  "sceneColor (asciiFragmentShader td tf p v) = td (cellUv (asciiFragmentShader td tf p v))"
  "luminance (asciiFragmentShader td tf p v) = 1 - luma (sceneColor (asciiFragmentShader td tf p v))"
  "charIndex (asciiFragmentShader td tf p v) =
     floor_f (luminance (asciiFragmentShader td tf p v) * (uCharCount p - 1))"
  "uvInCell (asciiFragmentShader td tf p v) =
     fract2 (mul2 v (gridDims (asciiFragmentShader td tf p v)))"
  "fontU (asciiFragmentShader td tf p v) =
     (charIndex (asciiFragmentShader td tf p v) + fst (uvInCell (asciiFragmentShader td tf p v)))
       / uCharCount p"
  "fontV (asciiFragmentShader td tf p v) = snd (uvInCell (asciiFragmentShader td tf p v))"
  "fontColor (asciiFragmentShader td tf p v) =
     tf (fontU (asciiFragmentShader td tf p v), fontV (asciiFragmentShader td tf p v))"
  "FragColor (asciiFragmentShader td tf p v) =
     vec4_of (scale3 (rgb (sceneColor (asciiFragmentShader td tf p v)))
                (red (fontColor (asciiFragmentShader td tf p v))))
       (alpha (sceneColor (asciiFragmentShader td tf p v))
          * red (fontColor (asciiFragmentShader td tf p v)))"
  by (simp_all add: asciiFragmentShader_def Let_def luma_def)

section \<open>Range of the character index\<close>






section \<open>The sample inputs in the exact model\<close>

lemma sample_glsl_scene:
  "sceneColor (AsciiShader_fragmentShader (sample_uniforms sc fc) v) = sc"
  "fontColor (AsciiShader_fragmentShader (sample_uniforms sc fc) v) = fc"
  "uCharCount (sample_uniforms sc fc) = 9"
  "uColor (sample_uniforms sc fc) = (1, 1, 1)"
  by (simp_all add: glsl_fields sample_uniforms_def)

lemma sample_wgsl_scene:
  "sceneColor (asciiFragmentShader (\<lambda>_. sc) (\<lambda>_. fc) p v) = sc"
  "fontColor (asciiFragmentShader (\<lambda>_. sc) (\<lambda>_. fc) p v) = fc"
  "uCharCount sample_params = 9"
  by (simp_all add: wgsl_fields sample_params_def)

section \<open>Black and white scene samples\<close>

lemma CHAR_SET_ends:
  "length CHAR_SET = 9" "CHAR_SET ! 0 = CHR ''.''" "CHAR_SET ! 8 = CHR ''@''"
  by (simp_all add: CHAR_SET_def)

lemma luma_black: "rgb c = (0, 0, 0) \<Longrightarrow> luma c = 0"
  by (simp add: luma_def dot3_def)

lemma luma_white: "rgb c = (1, 1, 1) \<Longrightarrow> luma c = 1"
  by (simp add: luma_def dot3_def)

lemma fract_bounds: "0 \<le> fract x" "fract x < 1"
  by (simp_all add: fract_def floor_f_def) linarith

lemma uvInCell_bounds:
  "0 \<le> fst (fract2 x)" "fst (fract2 x) < 1" "0 \<le> snd (fract2 x)" "snd (fract2 x) < 1"
  by (simp_all add: fract2_def fract_bounds)

text \<open>
  C3.  With the ramp \<open>.:-=+*%#@\<close> of nine characters as the character count: a black
  scene sample has inverted luminance 1 and character index 8, the index of \<open>@\<close> in the
  ramp, and the atlas is read in the last ninth of the strip; a white scene sample has
  inverted luminance 0 and character index 0, the index of \<open>.\<close>, and the atlas is read
  in the first ninth.  Both shaders.
\<close>

theorem black_and_white:
  "(uCharCount u = real (length CHAR_SET) \<and>
    rgb (sceneColor (AsciiShader_fragmentShader u v)) = (0, 0, 0) \<longrightarrow>
      luminance (AsciiShader_fragmentShader u v) = 1 \<and>
      charIndex (AsciiShader_fragmentShader u v) = 8 \<and>
      CHAR_SET ! nat \<lfloor>charIndex (AsciiShader_fragmentShader u v)\<rfloor> = CHR ''@'' \<and>
      8 / 9 \<le> fontU (AsciiShader_fragmentShader u v) \<and>
      fontU (AsciiShader_fragmentShader u v) < 1) \<and>
   (uCharCount u = real (length CHAR_SET) \<and>
    rgb (sceneColor (AsciiShader_fragmentShader u v)) = (1, 1, 1) \<longrightarrow>
      luminance (AsciiShader_fragmentShader u v) = 0 \<and>
      charIndex (AsciiShader_fragmentShader u v) = 0 \<and>
      CHAR_SET ! nat \<lfloor>charIndex (AsciiShader_fragmentShader u v)\<rfloor> = CHR ''.'' \<and>
      0 \<le> fontU (AsciiShader_fragmentShader u v) \<and>
      fontU (AsciiShader_fragmentShader u v) < 1 / 9) \<and>
   (uCharCount p = real (length CHAR_SET) \<and>
    rgb (sceneColor (asciiFragmentShader td tf p w)) = (0, 0, 0) \<longrightarrow>
      luminance (asciiFragmentShader td tf p w) = 1 \<and>
      charIndex (asciiFragmentShader td tf p w) = 8 \<and>
      CHAR_SET ! nat \<lfloor>charIndex (asciiFragmentShader td tf p w)\<rfloor> = CHR ''@'' \<and>
      8 / 9 \<le> fontU (asciiFragmentShader td tf p w) \<and>
      fontU (asciiFragmentShader td tf p w) < 1) \<and>
   (uCharCount p = real (length CHAR_SET) \<and>
    rgb (sceneColor (asciiFragmentShader td tf p w)) = (1, 1, 1) \<longrightarrow>
      luminance (asciiFragmentShader td tf p w) = 0 \<and>
      charIndex (asciiFragmentShader td tf p w) = 0 \<and>
      CHAR_SET ! nat \<lfloor>charIndex (asciiFragmentShader td tf p w)\<rfloor> = CHR ''.'' \<and>
      0 \<le> fontU (asciiFragmentShader td tf p w) \<and>
      fontU (asciiFragmentShader td tf p w) < 1 / 9) \<and>
   CHAR_SET = ''.:-=+*%#@'' \<and> uCharCount AsciiShader_uniforms = real (length CHAR_SET)"
proof -
  have g: "0 \<le> fst (uvInCell (AsciiShader_fragmentShader u v))"
      "fst (uvInCell (AsciiShader_fragmentShader u v)) < 1"
    by (simp_all add: glsl_fields(6) uvInCell_bounds)
  have w: "0 \<le> fst (uvInCell (asciiFragmentShader td tf p w))"
      "fst (uvInCell (asciiFragmentShader td tf p w)) < 1"
    by (simp_all add: wgsl_fields(6) uvInCell_bounds)
  show ?thesis
    using g w
    by (simp add: glsl_fields(4,5,7) wgsl_fields(4,5,7) luma_black luma_white CHAR_SET_ends
        floor_f_def AsciiShader_uniforms_def CHAR_SET_def [symmetric])
qed

theorem black_and_white_witness:
  "uCharCount (sample_uniforms (0, 0, 0, 1) (1, 1, 1, 1)) = real (length CHAR_SET) \<and>
   rgb (sceneColor (AsciiShader_fragmentShader (sample_uniforms (0, 0, 0, 1) (1, 1, 1, 1)) (1/2, 1/2))) = (0, 0, 0) \<and>
   charIndex (AsciiShader_fragmentShader (sample_uniforms (0, 0, 0, 1) (1, 1, 1, 1)) (1/2, 1/2)) = 8 \<and>
   uCharCount (sample_uniforms (1, 1, 1, 1) (1, 1, 1, 1)) = real (length CHAR_SET) \<and>
   rgb (sceneColor (AsciiShader_fragmentShader (sample_uniforms (1, 1, 1, 1) (1, 1, 1, 1)) (1/2, 1/2))) = (1, 1, 1) \<and>
   charIndex (AsciiShader_fragmentShader (sample_uniforms (1, 1, 1, 1) (1, 1, 1, 1)) (1/2, 1/2)) = 0 \<and>
   uCharCount sample_params = real (length CHAR_SET) \<and>
   rgb (sceneColor (asciiFragmentShader (\<lambda>_. (0, 0, 0, 1)) (\<lambda>_. (1, 1, 1, 1)) sample_params (1/2, 1/2))) = (0, 0, 0) \<and>
   charIndex (asciiFragmentShader (\<lambda>_. (0, 0, 0, 1)) (\<lambda>_. (1, 1, 1, 1)) sample_params (1/2, 1/2)) = 8 \<and>
   rgb (sceneColor (asciiFragmentShader (\<lambda>_. (1, 1, 1, 1)) (\<lambda>_. (1, 1, 1, 1)) sample_params (1/2, 1/2))) = (1, 1, 1) \<and>
   charIndex (asciiFragmentShader (\<lambda>_. (1, 1, 1, 1)) (\<lambda>_. (1, 1, 1, 1)) sample_params (1/2, 1/2)) = 0"
  using black_and_white [of "sample_uniforms (0, 0, 0, 1) (1, 1, 1, 1)" "(1/2, 1/2)" sample_params
      "\<lambda>_. (0, 0, 0, 1)" "\<lambda>_. (1, 1, 1, 1)" "(1/2, 1/2)"]
    black_and_white [of "sample_uniforms (1, 1, 1, 1) (1, 1, 1, 1)" "(1/2, 1/2)" sample_params
      "\<lambda>_. (1, 1, 1, 1)" "\<lambda>_. (1, 1, 1, 1)" "(1/2, 1/2)"]
  by (simp add: sample_glsl_scene sample_wgsl_scene rgb_def CHAR_SET_ends(1))

section \<open>Agreement of the two shaders\<close>

text \<open>
  C5.  On the same screen position, textures and parameter values, the GLSL shader and
  the WGSL shader compute the same grid dimensions, cell corner, scene sample, inverted
  luminance, character index, position in the cell, atlas coordinates and atlas sample:
  everything before the final colour.
\<close>

theorem backends_agree:
  "gridDims (AsciiShader_fragmentShader u uv) =
     gridDims (asciiFragmentShader (tDiffuse u) (tFont u) (params_of u) uv) \<and>
   cellUv (AsciiShader_fragmentShader u uv) =
     cellUv (asciiFragmentShader (tDiffuse u) (tFont u) (params_of u) uv) \<and>
   sceneColor (AsciiShader_fragmentShader u uv) =
     sceneColor (asciiFragmentShader (tDiffuse u) (tFont u) (params_of u) uv) \<and>
   luminance (AsciiShader_fragmentShader u uv) =
     luminance (asciiFragmentShader (tDiffuse u) (tFont u) (params_of u) uv) \<and>
   charIndex (AsciiShader_fragmentShader u uv) =
     charIndex (asciiFragmentShader (tDiffuse u) (tFont u) (params_of u) uv) \<and>
   uvInCell (AsciiShader_fragmentShader u uv) =
     uvInCell (asciiFragmentShader (tDiffuse u) (tFont u) (params_of u) uv) \<and>
   fontU (AsciiShader_fragmentShader u uv) =
     fontU (asciiFragmentShader (tDiffuse u) (tFont u) (params_of u) uv) \<and>
   fontV (AsciiShader_fragmentShader u uv) =
     fontV (asciiFragmentShader (tDiffuse u) (tFont u) (params_of u) uv) \<and>
   fontColor (AsciiShader_fragmentShader u uv) =
     fontColor (asciiFragmentShader (tDiffuse u) (tFont u) (params_of u) uv)"
  by (simp add: AsciiShader_fragmentShader_def asciiFragmentShader_def params_of_def Let_def)

section \<open>The colour written\<close>

lemma vec4_of_parts: "rgb (vec4_of c a) = c" "alpha (vec4_of c a) = a"
  by (simp_all add: vec4_of_def rgb_def alpha_def split: prod.splits)

text \<open>
  C4, as amended.  The WGSL shader writes the scene colour times the red channel of the
  atlas sample, with alpha the scene alpha times that red channel.  The GLSL shader
  writes the text colour \<open>uColor\<close> itself as RGB, not multiplied by the atlas sample,
  with alpha the red channel of the atlas sample times the scene alpha.  The scene is
  sampled at the cell corner and the atlas at \<open>(fontU, fontV)\<close>.
\<close>

theorem final_color:
  "rgb (FragColor (asciiFragmentShader td tf p w)) =
     scale3 (rgb (sceneColor (asciiFragmentShader td tf p w)))
       (red (fontColor (asciiFragmentShader td tf p w))) \<and>
   alpha (FragColor (asciiFragmentShader td tf p w)) =
     alpha (sceneColor (asciiFragmentShader td tf p w)) *
       red (fontColor (asciiFragmentShader td tf p w)) \<and>
   rgb (FragColor (AsciiShader_fragmentShader u v)) = uColor u \<and>
   alpha (FragColor (AsciiShader_fragmentShader u v)) =
     red (fontColor (AsciiShader_fragmentShader u v)) *
       alpha (sceneColor (AsciiShader_fragmentShader u v)) \<and>
   sceneColor (asciiFragmentShader td tf p w) = td (cellUv (asciiFragmentShader td tf p w)) \<and>
   fontColor (asciiFragmentShader td tf p w) =
     tf (fontU (asciiFragmentShader td tf p w), fontV (asciiFragmentShader td tf p w)) \<and>
   sceneColor (AsciiShader_fragmentShader u v) = tDiffuse u (cellUv (AsciiShader_fragmentShader u v)) \<and>
   fontColor (AsciiShader_fragmentShader u v) =
     tFont u (fontU (AsciiShader_fragmentShader u v), fontV (AsciiShader_fragmentShader u v))"
  by (simp add: glsl_fields(3,9,10) wgsl_fields(3,9,10) vec4_of_parts)

text \<open>
  C4 as stated fails: with a white text colour and an atlas sample without ink
  (red channel 0), the GLSL shader writes white as RGB, not the text colour multiplied
  by the atlas sample.
\<close>

theorem text_color_not_modulated:
  "rgb (FragColor (AsciiShader_fragmentShader (sample_uniforms (1, 1, 1, 1) (0, 0, 0, 1)) (1/2, 1/2))) \<noteq>
     scale3 (uColor (sample_uniforms (1, 1, 1, 1) (0, 0, 0, 1)))
       (red (fontColor (AsciiShader_fragmentShader (sample_uniforms (1, 1, 1, 1) (0, 0, 0, 1)) (1/2, 1/2))))"
  by (simp add: glsl_fields(10) sample_glsl_scene vec4_of_parts scale3_def red_def)

text \<open>
  C6.  When the scene sample of the cell has alpha 0, the colour written has alpha 0,
  whatever the atlas sample is, in both shaders.
\<close>

theorem no_coverage_transparent:
  "(alpha (sceneColor (AsciiShader_fragmentShader u v)) = 0 \<longrightarrow>
      alpha (FragColor (AsciiShader_fragmentShader u v)) = 0) \<and>
   (alpha (sceneColor (asciiFragmentShader td tf p w)) = 0 \<longrightarrow>
      alpha (FragColor (asciiFragmentShader td tf p w)) = 0)"
  by (simp add: glsl_fields(10) wgsl_fields(10) vec4_of_parts)

theorem no_coverage_transparent_witness:
  "alpha (sceneColor (AsciiShader_fragmentShader (sample_uniforms (1/2, 1/2, 1/2, 0) (1, 1, 1, 1)) (1/2, 1/2))) = 0 \<and>
   red (fontColor (AsciiShader_fragmentShader (sample_uniforms (1/2, 1/2, 1/2, 0) (1, 1, 1, 1)) (1/2, 1/2))) = 1 \<and>
   alpha (FragColor (AsciiShader_fragmentShader (sample_uniforms (1/2, 1/2, 1/2, 0) (1, 1, 1, 1)) (1/2, 1/2))) = 0 \<and>
   alpha (sceneColor (asciiFragmentShader (\<lambda>_. (1/2, 1/2, 1/2, 0)) (\<lambda>_. (1, 1, 1, 1)) sample_params (1/2, 1/2))) = 0 \<and>
   red (fontColor (asciiFragmentShader (\<lambda>_. (1/2, 1/2, 1/2, 0)) (\<lambda>_. (1, 1, 1, 1)) sample_params (1/2, 1/2))) = 1 \<and>
   alpha (FragColor (asciiFragmentShader (\<lambda>_. (1/2, 1/2, 1/2, 0)) (\<lambda>_. (1, 1, 1, 1)) sample_params (1/2, 1/2))) = 0"
  using no_coverage_transparent [of "sample_uniforms (1/2, 1/2, 1/2, 0) (1, 1, 1, 1)" "(1/2, 1/2)"
      "\<lambda>_. (1/2, 1/2, 1/2, 0)" "\<lambda>_. (1, 1, 1, 1)" sample_params "(1/2, 1/2)"]
  by (simp add: sample_glsl_scene sample_wgsl_scene alpha_def red_def)

section \<open>Properties of the binary32 rounding\<close>

lemma rne_of_int: "rne (of_int n) = n"
  by (simp add: rne_def)

lemma rne_bounds: "\<lfloor>q\<rfloor> \<le> rne q" "rne q \<le> \<lfloor>q\<rfloor> + 1"
  by (simp_all add: rne_def Let_def)

lemma rne_mono:
  assumes "q \<le> r"
  shows "rne q \<le> rne r"
proof (cases "\<lfloor>q\<rfloor> = \<lfloor>r\<rfloor>")
  case True
  with assms show ?thesis
    by (auto simp add: rne_def Let_def)
next
  case False
  with assms have "\<lfloor>q\<rfloor> + 1 \<le> \<lfloor>r\<rfloor>"
    using floor_mono [of q r] by linarith
  with rne_bounds(2) [of q] rne_bounds(1) [of r] show ?thesis
    by linarith
qed

lemma rne_le: "q \<le> of_int n \<Longrightarrow> rne q \<le> n"
  using rne_mono [of q "of_int n"] by (simp add: rne_of_int)

lemma rne_ge: "of_int n \<le> q \<Longrightarrow> n \<le> rne q"
  using rne_mono [of "of_int n" q] by (simp add: rne_of_int)

lemma ulp_exp_ge: "- 149 \<le> ulp_exp x"
  by (simp add: ulp_exp_def)

lemma scale_less:
  fixes a :: real
  shows "a * 2 ^ c < 2 powi w \<longleftrightarrow> a < 2 powi (w - int c)"
proof -
  have "(2::real) powi (w - int c) = 2 powi w / 2 ^ c"
    by (simp add: power_int_diff)
  then show ?thesis
    by (simp add: pos_less_divide_eq)
qed

lemma scale_le:
  fixes a :: real
  shows "2 powi w \<le> a * 2 ^ c \<longleftrightarrow> 2 powi (w - int c) \<le> a"
proof -
  have "(2::real) powi (w - int c) = 2 powi w / 2 ^ c"
    by (simp add: power_int_diff)
  then show ?thesis
    by (simp add: pos_divide_le_eq)
qed

lemma floor_bitlen_upper:
  fixes a :: real
  assumes "0 \<le> w" and "bitlen \<lfloor>a\<rfloor> \<le> w"
  shows "a < 2 powi w"
proof -
  from assms have "\<lfloor>a\<rfloor> < 2 ^ nat w"
    by (simp add: bitlen_le_iff_power)
  then have "\<lfloor>a\<rfloor> + 1 \<le> 2 ^ nat w"
    by simp
  then have "real_of_int (\<lfloor>a\<rfloor> + 1) \<le> real_of_int (2 ^ nat w)"
    by (rule of_int_le_iff [THEN iffD2])
  then have "real_of_int \<lfloor>a\<rfloor> + 1 \<le> 2 ^ nat w"
    by simp
  moreover have "a < real_of_int \<lfloor>a\<rfloor> + 1"
    by linarith
  moreover have "(2::real) ^ nat w = 2 powi w"
    using assms(1) by (simp add: power_int_def)
  ultimately show ?thesis
    by linarith
qed

lemma floor_bitlen_lower:
  fixes a :: real
  assumes "0 < w" and "w \<le> bitlen \<lfloor>a\<rfloor>"
  shows "2 powi (w - 1) \<le> a"
proof -
  from assms have "2 ^ (nat w - 1) \<le> \<lfloor>a\<rfloor>"
    unfolding bitlen_ge_iff_power [of w] by linarith
  then have "real_of_int (2 ^ (nat w - 1)) \<le> real_of_int \<lfloor>a\<rfloor>"
    by (rule of_int_le_iff [THEN iffD2])
  then have "2 ^ (nat w - 1) \<le> real_of_int \<lfloor>a\<rfloor>"
    by simp
  moreover have "real_of_int \<lfloor>a\<rfloor> \<le> a"
    by simp
  moreover have "(2::real) ^ (nat w - 1) = 2 powi (w - 1)"
  proof -
    from assms(1) have "int (nat w - 1) = w - 1"
      by simp
    then show ?thesis
      by (metis power_int_of_nat)
  qed
  ultimately show ?thesis
    by linarith
qed

lemma ulp_exp_upper: "\<bar>x\<bar> < 2 powi (ulp_exp x + 24)"
proof -
  define w where "w = ulp_exp x + 24 + 149"
  have "0 \<le> w" and "bitlen \<lfloor>\<bar>x\<bar> * 2 ^ 149\<rfloor> \<le> w"
    by (simp_all add: w_def ulp_exp_def)
  then have "\<bar>x\<bar> * 2 ^ 149 < 2 powi w"
    by (rule floor_bitlen_upper)
  then have "\<bar>x\<bar> < 2 powi (w - int 149)"
    by (rule scale_less [THEN iffD1])
  moreover have "w - int 149 = ulp_exp x + 24"
    by (simp add: w_def)
  ultimately show ?thesis
    by (simp only:)
qed

lemma ulp_exp_lower:
  assumes "ulp_exp x \<noteq> - 149"
  shows "2 powi (ulp_exp x + 23) \<le> \<bar>x\<bar>"
proof -
  define w where "w = ulp_exp x + 24 + 149"
  from assms have "0 < w" and "w \<le> bitlen \<lfloor>\<bar>x\<bar> * 2 ^ 149\<rfloor>"
    by (simp_all add: w_def ulp_exp_def max_def split: if_splits)
  then have "2 powi (w - 1) \<le> \<bar>x\<bar> * 2 ^ 149"
    by (rule floor_bitlen_lower)
  then have "2 powi (w - 1 - int 149) \<le> \<bar>x\<bar>"
    by (rule scale_le [THEN iffD1])
  moreover have "w - 1 - int 149 = ulp_exp x + 23"
    by (simp add: w_def)
  ultimately show ?thesis
    by (simp only:)
qed

lemma ulp_exp_mono:
  assumes "\<bar>x\<bar> \<le> \<bar>y\<bar>"
  shows "ulp_exp x \<le> ulp_exp y"
proof -
  from assms have "\<lfloor>\<bar>x\<bar> * 2 ^ 149\<rfloor> \<le> \<lfloor>\<bar>y\<bar> * 2 ^ 149\<rfloor>"
    by (intro floor_mono) simp
  then have "bitlen \<lfloor>\<bar>x\<bar> * 2 ^ 149\<rfloor> \<le> bitlen \<lfloor>\<bar>y\<bar> * 2 ^ 149\<rfloor>"
    by (simp add: bitlen_def floorlog_mono)
  then show ?thesis
    by (simp add: ulp_exp_def)
qed

lemma rnd_nonneg:
  assumes "0 \<le> x"
  shows "0 \<le> rnd x"
proof -
  from assms have "real_of_int 0 \<le> x / 2 powi ulp_exp x"
    by simp
  then have "0 \<le> rne (x / 2 powi ulp_exp x)"
    by (rule rne_ge)
  then show ?thesis
    by (simp add: rnd_def)
qed

lemma mantissa_bounds:
  "rne (x / 2 powi ulp_exp x) \<le> 2 ^ 24" "- (2 ^ 24) \<le> rne (x / 2 powi ulp_exp x)"
proof -
  have "\<bar>x\<bar> < 2 powi (ulp_exp x) * 2 ^ 24"
    using ulp_exp_upper [of x] by (simp add: power_int_add)
  then have "\<bar>x\<bar> / 2 powi ulp_exp x < 2 ^ 24"
    by (simp add: pos_divide_less_eq mult.commute)
  moreover have "\<bar>x / 2 powi ulp_exp x\<bar> = \<bar>x\<bar> / 2 powi ulp_exp x"
    by simp
  ultimately have b: "\<bar>x / 2 powi ulp_exp x\<bar> < 2 ^ 24"
    by linarith
  from b have "x / 2 powi ulp_exp x \<le> 2 ^ 24"
    by linarith
  then have "x / 2 powi ulp_exp x \<le> real_of_int (2 ^ 24)"
    by simp
  then show "rne (x / 2 powi ulp_exp x) \<le> 2 ^ 24"
    by (rule rne_le)
  from b have "- (2 ^ 24) \<le> x / 2 powi ulp_exp x"
    by linarith
  then have "real_of_int (- (2 ^ 24)) \<le> x / 2 powi ulp_exp x"
    by simp
  then show "- (2 ^ 24) \<le> rne (x / 2 powi ulp_exp x)"
    by (rule rne_ge)
qed

lemma rnd_mono:
  assumes "0 \<le> x" and "x \<le> y"
  shows "rnd x \<le> rnd y"
proof -
  from assms have e: "ulp_exp x \<le> ulp_exp y"
    by (intro ulp_exp_mono) simp
  show ?thesis
  proof (cases "ulp_exp x = ulp_exp y")
    case True
    from assms(2) have "x / 2 powi ulp_exp y \<le> y / 2 powi ulp_exp y"
      by (simp add: divide_right_mono)
    then have "rne (x / 2 powi ulp_exp y) \<le> rne (y / 2 powi ulp_exp y)"
      by (rule rne_mono)
    then show ?thesis
      by (simp add: rnd_def True)
  next
    case False
    with e have lt: "ulp_exp x + 24 \<le> ulp_exp y + 23" and ne: "ulp_exp y \<noteq> - 149"
      using ulp_exp_ge [of x] by simp_all
    have "real_of_int (rne (x / 2 powi ulp_exp x)) \<le> real_of_int (2 ^ 24)"
      by (rule of_int_le_iff [THEN iffD2]) (rule mantissa_bounds(1))
    then have "real_of_int (rne (x / 2 powi ulp_exp x)) * 2 powi ulp_exp x
        \<le> real_of_int (2 ^ 24) * 2 powi ulp_exp x"
      by (rule mult_right_mono) simp
    then have "rnd x \<le> 2 powi ulp_exp x * 2 powi 24"
      by (simp add: rnd_def mult.commute)
    also have "\<dots> = 2 powi (ulp_exp x + 24)"
      by (simp add: power_int_add)
    also have "\<dots> \<le> 2 powi (ulp_exp y + 23)"
      using lt by (intro power_int_increasing) simp_all
    also have "\<dots> \<le> rnd y"
    proof -
      from ulp_exp_lower [OF ne] assms have "2 powi (ulp_exp y + 23) \<le> y"
        by simp
      then have "2 powi ulp_exp y * 2 powi 23 \<le> y"
        by (simp add: power_int_add)
      then have "real_of_int (2 ^ 23) \<le> y / 2 powi ulp_exp y"
        by (simp add: pos_le_divide_eq mult.commute)
      then have "2 ^ 23 \<le> rne (y / 2 powi ulp_exp y)"
        by (rule rne_ge)
      then have "real_of_int (2 ^ 23) \<le> real_of_int (rne (y / 2 powi ulp_exp y))"
        by (rule of_int_le_iff [THEN iffD2])
      then have "real_of_int (2 ^ 23) * 2 powi ulp_exp y
          \<le> real_of_int (rne (y / 2 powi ulp_exp y)) * 2 powi ulp_exp y"
        by (rule mult_right_mono) simp
      then have "2 powi ulp_exp y * 2 powi 23 \<le> rnd y"
        by (simp add: rnd_def mult.commute)
      then show ?thesis
        by (simp add: power_int_add)
    qed
    finally show ?thesis .
  qed
qed








lemma ulp_exp_eqI:
  assumes e: "- 149 \<le> e" and up: "\<bar>x\<bar> < 2 powi (e + 24)"
    and lo: "e = - 149 \<or> 2 powi (e + 23) \<le> \<bar>x\<bar>"
  shows "ulp_exp x = e"
proof (rule antisym)
  show "ulp_exp x \<le> e"
  proof (rule ccontr)
    assume "\<not> ulp_exp x \<le> e"
    with e have gt: "e + 24 \<le> ulp_exp x + 23" and ne: "ulp_exp x \<noteq> - 149"
      by simp_all
    have "\<bar>x\<bar> < 2 powi (e + 24)"
      by (rule up)
    also have "\<dots> \<le> 2 powi (ulp_exp x + 23)"
      using gt by (intro power_int_increasing) simp_all
    also have "\<dots> \<le> \<bar>x\<bar>"
      by (rule ulp_exp_lower [OF ne])
    finally show False
      by simp
  qed
  show "e \<le> ulp_exp x"
  proof (rule ccontr)
    assume "\<not> e \<le> ulp_exp x"
    with ulp_exp_ge [of x] have gt: "ulp_exp x + 24 \<le> e + 23" and ne: "e \<noteq> - 149"
      by simp_all
    have "\<bar>x\<bar> < 2 powi (ulp_exp x + 24)"
      by (rule ulp_exp_upper)
    also have "\<dots> \<le> 2 powi (e + 23)"
      using gt by (intro power_int_increasing) simp_all
    also have "\<dots> \<le> \<bar>x\<bar>"
      using lo ne by simp
    finally show False
      by simp
  qed
qed

lemma rne_eqI:
  assumes "\<bar>q - of_int m\<bar> < 1 / 2 \<or> (\<bar>q - of_int m\<bar> = 1 / 2 \<and> even m)"
  shows "rne q = m"
proof (cases "of_int m \<le> q")
  case True
  from assms have b: "\<bar>q - of_int m\<bar> \<le> 1 / 2"
    by auto
  have "\<lfloor>q\<rfloor> = m"
  proof (rule floor_unique)
    show "of_int m \<le> q"
      by (rule True)
    from b have "q - of_int m \<le> 1 / 2"
      by (simp only: abs_le_iff)
    then show "q < of_int m + 1"
      by linarith
  qed
  with assms True show ?thesis
    by (auto simp add: rne_def Let_def)
next
  case False
  from assms have b: "\<bar>q - of_int m\<bar> \<le> 1 / 2"
    by auto
  have "\<lfloor>q\<rfloor> = m - 1"
  proof (rule floor_unique)
    from b have "- (q - of_int m) \<le> 1 / 2"
      by (simp only: abs_le_iff)
    then have "real_of_int m - 1 \<le> q"
      by linarith
    then show "of_int (m - 1) \<le> q"
      by simp
    show "q < of_int (m - 1) + 1"
      using False by simp
  qed
  with assms False show ?thesis
    by (auto simp add: rne_def Let_def)
qed

text \<open>
  Evaluation of the rounding at a number below \<open>2 ^ 24\<close>: the result is \<open>m / 2 ^ k\<close> when
  \<open>2 ^ k\<close> scales the number into the range of a 24-bit significand and \<open>m\<close> is the
  integer nearest to the scaled number, the even one of the two in a tie.
\<close>

lemma rnd_eqI:
  assumes k: "k \<le> 149" and up: "\<bar>x\<bar> * 2 ^ k < 2 ^ 24"
    and lo: "k = 149 \<or> 2 ^ 23 \<le> \<bar>x\<bar> * 2 ^ k"
    and m: "\<bar>x * 2 ^ k - of_int m\<bar> < 1 / 2 \<or>
      (\<bar>x * 2 ^ k - of_int m\<bar> = 1 / 2 \<and> even m)"
  shows "rnd x = of_int m / 2 ^ k"
proof -
  have p: "(2::real) powi (- int k) = 1 / 2 ^ k"
    by (simp add: power_int_minus divide_inverse)
  have "\<bar>x\<bar> * 2 ^ k < 2 powi 24"
    using up by simp
  then have "\<bar>x\<bar> < 2 powi (24 - int k)"
    by (rule scale_less [THEN iffD1])
  then have up': "\<bar>x\<bar> < 2 powi (- int k + 24)"
    by (simp add: add.commute)
  have lo': "- int k = - 149 \<or> 2 powi (- int k + 23) \<le> \<bar>x\<bar>"
  proof (cases "k = 149")
    case True
    then show ?thesis by simp
  next
    case False
    with lo have "2 powi 23 \<le> \<bar>x\<bar> * 2 ^ k"
      by simp
    then have "2 powi (23 - int k) \<le> \<bar>x\<bar>"
      by (rule scale_le [THEN iffD1])
    then show ?thesis
      by (simp add: add.commute)
  qed
  have e: "ulp_exp x = - int k"
    using k up' lo' by (intro ulp_exp_eqI) simp_all
  have "x / 2 powi (- int k) = x * 2 ^ k"
    by (simp add: p)
  with m have "rne (x / 2 powi (- int k)) = m"
    by (intro rne_eqI) simp
  then show ?thesis
    by (simp add: rnd_def e p)
qed

lemma fin_eqI:
  assumes "k \<le> 149" and "\<bar>x\<bar> * 2 ^ k < 2 ^ 24"
    and "k = 149 \<or> 2 ^ 23 \<le> \<bar>x\<bar> * 2 ^ k"
    and "\<bar>x * 2 ^ k - of_int m\<bar> < 1 / 2 \<or>
      (\<bar>x * 2 ^ k - of_int m\<bar> = 1 / 2 \<and> even m)"
    and r: "r = of_int m / 2 ^ k"
  shows "fin x = Some r"
proof -
  have x: "rnd x = r"
    unfolding r using assms(1-4) by (rule rnd_eqI)
  define y where "y = x * 2 ^ k"
  have "\<bar>y\<bar> = \<bar>x\<bar> * 2 ^ k"
    by (simp add: y_def abs_mult)
  with assms(2) have "\<bar>y\<bar> < 16777216"
    by simp
  moreover from assms(4) have "\<bar>y - real_of_int m\<bar> \<le> 1 / 2"
    unfolding y_def by linarith
  ultimately have "\<bar>real_of_int m\<bar> < 33554432"
    by linarith
  then have m: "\<bar>real_of_int m\<bar> < 2 ^ 25"
    by simp
  have "1 \<le> (2::real) ^ k"
    by simp
  then have "\<bar>real_of_int m\<bar> / 2 ^ k \<le> \<bar>real_of_int m\<bar> / 1"
    by (intro divide_left_mono) simp_all
  with m have "\<bar>r\<bar> < 2 ^ 25"
    by (simp add: r)
  then have "\<bar>rnd x\<bar> < 2 ^ 128"
    by (simp add: x)
  then show ?thesis
    by (simp add: fin_def x)
qed

section \<open>The shaders in binary32 arithmetic\<close>

lemma fin_eq_Some: "fin x = Some r \<longleftrightarrow> \<bar>rnd x\<bar> < 2 ^ 128 \<and> r = rnd x"
  by (auto simp add: fin_def)

lemma fop_SomeD:
  "fadd a b = Some r \<Longrightarrow> r = rnd (a + b)"
  "fsub a b = Some r \<Longrightarrow> r = rnd (a - b)"
  "fmul a b = Some r \<Longrightarrow> r = rnd (a * b)"
  "fdiv a b = Some r \<Longrightarrow> b \<noteq> 0 \<and> r = rnd (a / b)"
  by (simp_all add: fadd_def fsub_def fmul_def fdiv_def fin_eq_Some split: if_splits)

lemma div2s_32_SomeD:
  assumes "div2s_32 v k = Some g"
  shows "k \<noteq> 0 \<and> g = (rnd (fst v / k), rnd (snd v / k))"
  using assms by (auto simp add: div2s_32_def bind_eq_Some_conv dest!: fop_SomeD(4))

lemma mul2_32_SomeD:
  assumes "mul2_32 v w = Some p"
  shows "p = scaled32 v w"
  using assms by (auto simp add: mul2_32_def scaled32_def bind_eq_Some_conv dest!: fop_SomeD(3))

lemma fract2_32_SomeD:
  assumes "fract2_32 p = Some q"
  shows "q = (rnd (fst p - floor_f (fst p)), rnd (snd p - floor_f (snd p)))"
  using assms
  by (auto simp add: fract2_32_def fract32_def bind_eq_Some_conv dest!: fop_SomeD(2))

lemma dot3_32_SomeD:
  assumes "dot3_32 (rgb c) luma_weights = Some d"
  shows "d = brightness32 c"
proof -
  obtain r g b a where c: "c = (r, g, b, a)"
    by (cases c) auto
  obtain w1 w2 w3 where w: "luma_weights = (w1, w2, w3)"
    by (cases luma_weights) auto
  from assms show ?thesis
    unfolding c w
    by (auto simp add: dot3_32_def brightness32_def rgb_def w bind_eq_Some_conv
        dest!: fop_SomeD(1) fop_SomeD(3))
qed

lemma glsl32_locals:
  assumes "AsciiShader_fragmentShader_f32 u v = Some f"
  shows "locals32 (uCharCount u) (uResolution u) (uFontSize u) v f"
proof -
  from assms obtain g p c d l n t q s fu a where
    g: "div2s_32 (uResolution u) (uFontSize u) = Some g" and
    p: "mul2_32 v g = Some p" and
    c: "div2_32 (floor2 p) g = Some c" and
    d: "dot3_32 (rgb (tDiffuse u c)) luma_weights = Some d" and
    l: "fsub 1 d = Some l" and
    n: "fsub (uCharCount u) 1 = Some n" and
    t: "fmul l n = Some t" and
    q: "fract2_32 p = Some q" and
    s: "fadd (floor_f t) (fst q) = Some s" and
    fu: "fdiv s (uCharCount u) = Some fu" and
    f: "f = \<lparr>gridDims = g, cellUv = c, sceneColor = tDiffuse u c, luminance = l,
          charIndex = floor_f t, uvInCell = q, fontU = fu, fontV = snd q,
          fontColor = tFont u (fu, snd q), FragColor = vec4_of (uColor u) a\<rparr>"
    unfolding AsciiShader_fragmentShader_f32_def Let_def bind_eq_Some_conv
    by blast
  show ?thesis
    unfolding locals32_def f
    using div2s_32_SomeD [OF g] mul2_32_SomeD [OF p] dot3_32_SomeD [OF d]
      fop_SomeD(2) [OF l] fop_SomeD(2) [OF n] fop_SomeD(3) [OF t] fract2_32_SomeD [OF q]
      fop_SomeD(1) [OF s] fop_SomeD(4) [OF fu]
    by simp
qed

lemma wgsl32_locals:
  assumes "asciiFragmentShader_f32 td tf pa v = Some f"
  shows "locals32 (uCharCount pa) (uResolution pa) (uFontSize pa) v f"
proof -
  from assms obtain g p c d l n t q s fu tinted a where
    g: "div2s_32 (uResolution pa) (uFontSize pa) = Some g" and
    p: "mul2_32 v g = Some p" and
    c: "div2_32 (floor2 p) g = Some c" and
    d: "dot3_32 (rgb (td c)) luma_weights = Some d" and
    l: "fsub 1 d = Some l" and
    n: "fsub (uCharCount pa) 1 = Some n" and
    t: "fmul l n = Some t" and
    q: "fract2_32 p = Some q" and
    s: "fadd (floor_f t) (fst q) = Some s" and
    fu: "fdiv s (uCharCount pa) = Some fu" and
    f: "f = \<lparr>gridDims = g, cellUv = c, sceneColor = td c, luminance = l,
          charIndex = floor_f t, uvInCell = q, fontU = fu, fontV = snd q,
          fontColor = tf (fu, snd q), FragColor = vec4_of tinted a\<rparr>"
    unfolding asciiFragmentShader_f32_def Let_def bind_eq_Some_conv
    by blast
  show ?thesis
    unfolding locals32_def f
    using div2s_32_SomeD [OF g] mul2_32_SomeD [OF p] dot3_32_SomeD [OF d]
      fop_SomeD(2) [OF l] fop_SomeD(2) [OF n] fop_SomeD(3) [OF t] fract2_32_SomeD [OF q]
      fop_SomeD(1) [OF s] fop_SomeD(4) [OF fu]
    by simp
qed

lemma luma_weights_values:
  "luma_weights = (10032775 / 33554432, 4924113 / 8388608, 15300821 / 134217728)"
proof -
  have "rnd (299 / 1000) = 10032775 / 33554432"
    using rnd_eqI [where x = "299 / 1000" and k = 25 and m = 10032775] by simp
  moreover have "rnd (587 / 1000) = 4924113 / 8388608"
    using rnd_eqI [where x = "587 / 1000" and k = 24 and m = 9848226] by simp
  moreover have "rnd (114 / 1000) = 15300821 / 134217728"
    using rnd_eqI [where x = "114 / 1000" and k = 27 and m = 15300821] by simp
  ultimately show ?thesis
    by (simp add: luma_weights_def)
qed







lemma locals32_order:
  assumes f: "locals32 N res fs v f" and f': "locals32 N res' fs' v' f'"
    and lt: "brightness32 (sceneColor f) < brightness32 (sceneColor f')"
    and b: "brightness32 (sceneColor f') \<le> 1"
    and N: "1 \<le> N"
  shows "luminance f' \<le> luminance f \<and> charIndex f' \<le> charIndex f"
proof -
  from f f' have l: "luminance f = rnd (1 - brightness32 (sceneColor f))"
      "luminance f' = rnd (1 - brightness32 (sceneColor f'))"
    and ci: "charIndex f = floor_f (rnd (luminance f * rnd (N - 1)))"
      "charIndex f' = floor_f (rnd (luminance f' * rnd (N - 1)))"
    by (simp_all add: locals32_def)
  have a: "0 \<le> 1 - brightness32 (sceneColor f')"
    using b by simp
  have le: "luminance f' \<le> luminance f"
    unfolding l using a lt by (intro rnd_mono) simp_all
  have l0: "0 \<le> luminance f'"
    unfolding l using a by (rule rnd_nonneg)
  have m0: "0 \<le> rnd (N - 1)"
    using N by (intro rnd_nonneg) simp
  have "0 \<le> luminance f' * rnd (N - 1)"
    using l0 m0 by simp
  moreover have "luminance f' * rnd (N - 1) \<le> luminance f * rnd (N - 1)"
    using le m0 by (rule mult_right_mono)
  ultimately have "rnd (luminance f' * rnd (N - 1)) \<le> rnd (luminance f * rnd (N - 1))"
    by (rule rnd_mono)
  then have "charIndex f' \<le> charIndex f"
    unfolding ci floor_f_def by (simp add: floor_mono)
  with le show ?thesis
    by simp
qed

section \<open>Runs of the binary32 shaders on concrete inputs\<close>

text \<open>
  Values of single operations, each with the scaling \<open>2 ^ k\<close> and the significand \<open>m\<close>
  that justify it, and the shader runs built from them.
\<close>

lemma fin_value_1: "fin (64) = Some (64)"
  by (rule fin_eqI [where k = 17 and m = 8388608]) simp_all

lemma fin_value_2: "fin (48) = Some (48)"
  by (rule fin_eqI [where k = 18 and m = 12582912]) simp_all

lemma fin_value_3: "fin (16777215 / 16777216) = Some (16777215 / 16777216)"
  by (rule fin_eqI [where k = 24 and m = 16777215]) simp_all

lemma fin_value_4: "fin (24) = Some (24)"
  by (rule fin_eqI [where k = 19 and m = 12582912]) simp_all

lemma fin_value_5: "fin (0) = Some (0)"
  by (rule fin_eqI [where k = 149 and m = 0]) simp_all

lemma fin_value_6: "fin (1 / 2) = Some (1 / 2)"
  by (rule fin_eqI [where k = 24 and m = 8388608]) simp_all

lemma fin_value_7: "fin (1) = Some (1)"
  by (rule fin_eqI [where k = 23 and m = 8388608]) simp_all

lemma fin_value_8: "fin (8) = Some (8)"
  by (rule fin_eqI [where k = 20 and m = 8388608]) simp_all

lemma fin_value_9: "fin (150994943 / 16777216) = Some (9)"
  by (rule fin_eqI [where k = 20 and m = 9437184]) simp_all

lemma fin_value_10: "fin (129 / 4) = Some (129 / 4)"
  by (rule fin_eqI [where k = 18 and m = 8454144]) simp_all

lemma fin_value_11: "fin (393 / 16) = Some (393 / 16)"
  by (rule fin_eqI [where k = 19 and m = 12877824]) simp_all

lemma fin_value_12: "fin (10032775 / 67108864) = Some (10032775 / 67108864)"
  by (rule fin_eqI [where k = 26 and m = 10032775]) simp_all

lemma fin_value_13: "fin (4924113 / 16777216) = Some (4924113 / 16777216)"
  by (rule fin_eqI [where k = 25 and m = 9848226]) simp_all

lemma fin_value_14: "fin (15300821 / 268435456) = Some (15300821 / 268435456)"
  by (rule fin_eqI [where k = 28 and m = 15300821]) simp_all

lemma fin_value_15: "fin (29729227 / 67108864) = Some (7432307 / 16777216)"
  by (rule fin_eqI [where k = 25 and m = 14864614]) simp_all

lemma fin_value_16: "fin (134217733 / 268435456) = Some (1 / 2)"
  by (rule fin_eqI [where k = 24 and m = 8388608]) simp_all

lemma fin_value_17: "fin (4) = Some (4)"
  by (rule fin_eqI [where k = 21 and m = 8388608]) simp_all

lemma fin_value_18: "fin (1 / 4) = Some (1 / 4)"
  by (rule fin_eqI [where k = 25 and m = 8388608]) simp_all

lemma fin_value_19: "fin (9 / 16) = Some (9 / 16)"
  by (rule fin_eqI [where k = 24 and m = 9437184]) simp_all

lemma fin_value_20: "fin (17 / 4) = Some (17 / 4)"
  by (rule fin_eqI [where k = 21 and m = 8912896]) simp_all

lemma fin_value_21: "fin (17 / 36) = Some (3961287 / 8388608)"
  by (rule fin_eqI [where k = 25 and m = 15845148]) simp_all

lemma fin_value_22: "fin (32) = Some (32)"
  by (rule fin_eqI [where k = 18 and m = 8388608]) simp_all

lemma fin_value_23: "fin (10032775 / 134217728) = Some (10032775 / 134217728)"
  by (rule fin_eqI [where k = 27 and m = 10032775]) simp_all

lemma fin_value_24: "fin (124184953 / 134217728) = Some (15523119 / 16777216)"
  by (rule fin_eqI [where k = 24 and m = 15523119]) simp_all

lemma fin_value_25: "fin (15523119 / 2097152) = Some (15523119 / 2097152)"
  by (rule fin_eqI [where k = 21 and m = 15523119]) simp_all

lemma fin_value_26: "fin (7) = Some (7)"
  by (rule fin_eqI [where k = 21 and m = 14680064]) simp_all

lemma fin_value_27: "fin (7 / 9) = Some (6524473 / 8388608)"
  by (rule fin_eqI [where k = 24 and m = 13048946]) simp_all

lemma fin_value_28: "fin (84161026659975 / 1125899906842624) = Some (1254097 / 16777216)"
  by (rule fin_eqI [where k = 27 and m = 10032776]) simp_all

lemma fin_value_29: "fin (1254097 / 16777216) = Some (1254097 / 16777216)"
  by (rule fin_eqI [where k = 27 and m = 10032776]) simp_all

lemma fin_value_30: "fin (15523119 / 16777216) = Some (15523119 / 16777216)"
  by (rule fin_eqI [where k = 24 and m = 15523119]) simp_all

lemma fin_value_31: "fin (158420737770775 / 9007199254740992) = Some (2360653 / 134217728)"
  by (rule fin_eqI [where k = 29 and m = 9442612]) simp_all

lemma fin_value_32: "fin (79697157909927 / 140737488355328) = Some (4750321 / 8388608)"
  by (rule fin_eqI [where k = 24 and m = 9500642]) simp_all

lemma fin_value_33: "fin (185230407854573 / 4503599627370496) = Some (11040593 / 268435456)"
  by (rule fin_eqI [where k = 28 and m = 11040593]) simp_all

lemma fin_value_34: "fin (78365789 / 134217728) = Some (2448931 / 4194304)"
  by (rule fin_eqI [where k = 24 and m = 9795724]) simp_all

lemma fin_value_35: "fin (167772177 / 268435456) = Some (10485761 / 16777216)"
  by (rule fin_eqI [where k = 24 and m = 10485761]) simp_all

lemma fin_value_36: "fin (6291455 / 16777216) = Some (6291455 / 16777216)"
  by (rule fin_eqI [where k = 25 and m = 12582910]) simp_all

lemma fin_value_37: "fin (6291455 / 2097152) = Some (6291455 / 2097152)"
  by (rule fin_eqI [where k = 22 and m = 12582910]) simp_all

lemma fin_value_38: "fin (2) = Some (2)"
  by (rule fin_eqI [where k = 22 and m = 8388608]) simp_all

lemma fin_value_39: "fin (2 / 9) = Some (14913081 / 67108864)"
  by (rule fin_eqI [where k = 26 and m = 14913081]) simp_all

lemma fin_value_40: "fin (84491064826375 / 72057594037927936) = Some (1259015 / 1073741824)"
  by (rule fin_eqI [where k = 33 and m = 10072120]) simp_all

lemma fin_value_41: "fin (72569770244529 / 140737488355328) = Some (8650991 / 16777216)"
  by (rule fin_eqI [where k = 24 and m = 8650991]) simp_all

lemma fin_value_42: "fin (243618248985647 / 2251799813685248) = Some (14520779 / 134217728)"
  by (rule fin_eqI [where k = 27 and m = 14520779]) simp_all

lemma fin_value_43: "fin (554922439 / 1073741824) = Some (8670663 / 16777216)"
  by (rule fin_eqI [where k = 24 and m = 8670663]) simp_all

lemma fin_value_44: "fin (83886083 / 134217728) = Some (5 / 8)"
  by (rule fin_eqI [where k = 24 and m = 10485760]) simp_all

lemma fin_value_45: "fin (3 / 8) = Some (3 / 8)"
  by (rule fin_eqI [where k = 25 and m = 12582912]) simp_all

lemma fin_value_46: "fin (3) = Some (3)"
  by (rule fin_eqI [where k = 22 and m = 12582912]) simp_all

lemma fin_value_47: "fin (1 / 3) = Some (11184811 / 33554432)"
  by (rule fin_eqI [where k = 25 and m = 11184811]) simp_all

lemma fin_value_48: "fin (4924113 / 33554432) = Some (4924113 / 33554432)"
  by (rule fin_eqI [where k = 26 and m = 9848226]) simp_all

lemma fin_value_49: "fin (15300821 / 536870912) = Some (15300821 / 536870912)"
  by (rule fin_eqI [where k = 29 and m = 15300821]) simp_all

lemma fin_value_50: "fin (29729227 / 134217728) = Some (7432307 / 33554432)"
  by (rule fin_eqI [where k = 26 and m = 14864614]) simp_all

lemma fin_value_51: "fin (134217733 / 536870912) = Some (1 / 4)"
  by (rule fin_eqI [where k = 25 and m = 8388608]) simp_all

lemma fin_value_52: "fin (3 / 4) = Some (3 / 4)"
  by (rule fin_eqI [where k = 24 and m = 12582912]) simp_all

lemma fin_value_53: "fin (6) = Some (6)"
  by (rule fin_eqI [where k = 21 and m = 12582912]) simp_all

lemma fin_value_54: "fin (2 / 3) = Some (11184811 / 16777216)"
  by (rule fin_eqI [where k = 24 and m = 11184811]) simp_all

lemma fin_value_55: "fin (30098325 / 134217728) = Some (7524581 / 33554432)"
  by (rule fin_eqI [where k = 26 and m = 15049162]) simp_all

lemma fin_value_56: "fin (14772339 / 33554432) = Some (14772339 / 33554432)"
  by (rule fin_eqI [where k = 25 and m = 14772339]) simp_all

lemma fin_value_57: "fin (45902463 / 536870912) = Some (358613 / 4194304)"
  by (rule fin_eqI [where k = 27 and m = 11475616]) simp_all

lemma fin_value_58: "fin (2787115 / 4194304) = Some (2787115 / 4194304)"
  by (rule fin_eqI [where k = 24 and m = 11148460]) simp_all

lemmas fin_values =
  fin_value_1
  fin_value_2
  fin_value_3
  fin_value_4
  fin_value_5
  fin_value_6
  fin_value_7
  fin_value_8
  fin_value_9
  fin_value_10
  fin_value_11
  fin_value_12
  fin_value_13
  fin_value_14
  fin_value_15
  fin_value_16
  fin_value_17
  fin_value_18
  fin_value_19
  fin_value_20
  fin_value_21
  fin_value_22
  fin_value_23
  fin_value_24
  fin_value_25
  fin_value_26
  fin_value_27
  fin_value_28
  fin_value_29
  fin_value_30
  fin_value_31
  fin_value_32
  fin_value_33
  fin_value_34
  fin_value_35
  fin_value_36
  fin_value_37
  fin_value_38
  fin_value_39
  fin_value_40
  fin_value_41
  fin_value_42
  fin_value_43
  fin_value_44
  fin_value_45
  fin_value_46
  fin_value_47
  fin_value_48
  fin_value_49
  fin_value_50
  fin_value_51
  fin_value_52
  fin_value_53
  fin_value_54
  fin_value_55
  fin_value_56
  fin_value_57
  fin_value_58

lemma rnd_value_1: "rnd (1 / 17) = 15790321 / 268435456"
  using rnd_eqI [where x = "1 / 17" and k = 28 and m = 15790321] by simp

lemma rnd_value_2: "rnd (82 / 85) = 16185079 / 16777216"
  using rnd_eqI [where x = "82 / 85" and k = 24 and m = 16185079] by simp

lemma rnd_value_3: "rnd (92 / 255) = 12105913 / 33554432"
  using rnd_eqI [where x = "92 / 255" and k = 25 and m = 12105913] by simp

lemma rnd_value_4: "rnd (1 / 255) = 8421505 / 2147483648"
  using rnd_eqI [where x = "1 / 255" and k = 31 and m = 8421505] by simp

lemma rnd_value_5: "rnd (224 / 255) = 14737633 / 16777216"
  using rnd_eqI [where x = "224 / 255" and k = 24 and m = 14737633] by simp

lemma rnd_value_6: "rnd (242 / 255) = 15921907 / 16777216"
  using rnd_eqI [where x = "242 / 255" and k = 24 and m = 15921907] by simp

lemma rnd_value_7: "rnd (10032775 / 134217728) = 10032775 / 134217728"
  using rnd_eqI [where x = "10032775 / 134217728" and k = 27 and m = 10032775] by simp

lemma rnd_value_8: "rnd (0) = 0"
  using rnd_eqI [where x = "0" and k = 149 and m = 0] by simp

lemma rnd_value_9: "rnd (84161026659975 / 1125899906842624) = 1254097 / 16777216"
  using rnd_eqI [where x = "84161026659975 / 1125899906842624" and k = 27 and m = 10032776] by simp

lemma rnd_value_10: "rnd (1254097 / 16777216) = 1254097 / 16777216"
  using rnd_eqI [where x = "1254097 / 16777216" and k = 27 and m = 10032776] by simp

lemma rnd_value_11: "rnd (4924113 / 33554432) = 4924113 / 33554432"
  using rnd_eqI [where x = "4924113 / 33554432" and k = 26 and m = 9848226] by simp

lemma rnd_value_12: "rnd (15300821 / 536870912) = 15300821 / 536870912"
  using rnd_eqI [where x = "15300821 / 536870912" and k = 29 and m = 15300821] by simp

lemma rnd_value_13: "rnd (29729227 / 134217728) = 7432307 / 33554432"
  using rnd_eqI [where x = "29729227 / 134217728" and k = 26 and m = 14864614] by simp

lemma rnd_value_14: "rnd (134217733 / 536870912) = 1 / 4"
  using rnd_eqI [where x = "134217733 / 536870912" and k = 25 and m = 8388608] by simp

lemma rnd_value_15: "rnd (30098325 / 134217728) = 7524581 / 33554432"
  using rnd_eqI [where x = "30098325 / 134217728" and k = 26 and m = 15049162] by simp

lemma rnd_value_16: "rnd (14772339 / 33554432) = 14772339 / 33554432"
  using rnd_eqI [where x = "14772339 / 33554432" and k = 25 and m = 14772339] by simp

lemma rnd_value_17: "rnd (45902463 / 536870912) = 358613 / 4194304"
  using rnd_eqI [where x = "45902463 / 536870912" and k = 27 and m = 11475616] by simp

lemma rnd_value_18: "rnd (2787115 / 4194304) = 2787115 / 4194304"
  using rnd_eqI [where x = "2787115 / 4194304" and k = 24 and m = 11148460] by simp

lemma rnd_value_19: "rnd (3 / 4) = 3 / 4"
  using rnd_eqI [where x = "3 / 4" and k = 24 and m = 12582912] by simp

lemma rnd_value_20: "rnd (158420737770775 / 9007199254740992) = 2360653 / 134217728"
  using rnd_eqI [where x = "158420737770775 / 9007199254740992" and k = 29 and m = 9442612] by simp

lemma rnd_value_21: "rnd (79697157909927 / 140737488355328) = 4750321 / 8388608"
  using rnd_eqI [where x = "79697157909927 / 140737488355328" and k = 24 and m = 9500642] by simp

lemma rnd_value_22: "rnd (185230407854573 / 4503599627370496) = 11040593 / 268435456"
  using rnd_eqI [where x = "185230407854573 / 4503599627370496" and k = 28 and m = 11040593] by simp

lemma rnd_value_23: "rnd (78365789 / 134217728) = 2448931 / 4194304"
  using rnd_eqI [where x = "78365789 / 134217728" and k = 24 and m = 9795724] by simp

lemma rnd_value_24: "rnd (167772177 / 268435456) = 10485761 / 16777216"
  using rnd_eqI [where x = "167772177 / 268435456" and k = 24 and m = 10485761] by simp

lemma rnd_value_25: "rnd (84491064826375 / 72057594037927936) = 1259015 / 1073741824"
  using rnd_eqI [where x = "84491064826375 / 72057594037927936" and k = 33 and m = 10072120] by simp

lemma rnd_value_26: "rnd (72569770244529 / 140737488355328) = 8650991 / 16777216"
  using rnd_eqI [where x = "72569770244529 / 140737488355328" and k = 24 and m = 8650991] by simp

lemma rnd_value_27: "rnd (243618248985647 / 2251799813685248) = 14520779 / 134217728"
  using rnd_eqI [where x = "243618248985647 / 2251799813685248" and k = 27 and m = 14520779] by simp

lemma rnd_value_28: "rnd (554922439 / 1073741824) = 8670663 / 16777216"
  using rnd_eqI [where x = "554922439 / 1073741824" and k = 24 and m = 8670663] by simp

lemma rnd_value_29: "rnd (83886083 / 134217728) = 5 / 8"
  using rnd_eqI [where x = "83886083 / 134217728" and k = 24 and m = 10485760] by simp

lemma rnd_value_30: "rnd (10032775 / 67108864) = 10032775 / 67108864"
  using rnd_eqI [where x = "10032775 / 67108864" and k = 26 and m = 10032775] by simp

lemma rnd_value_31: "rnd (4924113 / 16777216) = 4924113 / 16777216"
  using rnd_eqI [where x = "4924113 / 16777216" and k = 25 and m = 9848226] by simp

lemma rnd_value_32: "rnd (15300821 / 268435456) = 15300821 / 268435456"
  using rnd_eqI [where x = "15300821 / 268435456" and k = 28 and m = 15300821] by simp

lemma rnd_value_33: "rnd (29729227 / 67108864) = 7432307 / 16777216"
  using rnd_eqI [where x = "29729227 / 67108864" and k = 25 and m = 14864614] by simp

lemma rnd_value_34: "rnd (134217733 / 268435456) = 1 / 2"
  using rnd_eqI [where x = "134217733 / 268435456" and k = 24 and m = 8388608] by simp

lemmas rnd_values_computed =
  rnd_value_1
  rnd_value_2
  rnd_value_3
  rnd_value_4
  rnd_value_5
  rnd_value_6
  rnd_value_7
  rnd_value_8
  rnd_value_9
  rnd_value_10
  rnd_value_11
  rnd_value_12
  rnd_value_13
  rnd_value_14
  rnd_value_15
  rnd_value_16
  rnd_value_17
  rnd_value_18
  rnd_value_19
  rnd_value_20
  rnd_value_21
  rnd_value_22
  rnd_value_23
  rnd_value_24
  rnd_value_25
  rnd_value_26
  rnd_value_27
  rnd_value_28
  rnd_value_29
  rnd_value_30
  rnd_value_31
  rnd_value_32
  rnd_value_33
  rnd_value_34

lemma unorm8_values:
  "unorm8 15 = 15790321 / 268435456" "unorm8 246 = 16185079 / 16777216" "unorm8 92 = 12105913 / 33554432"
  "unorm8 1 = 8421505 / 2147483648" "unorm8 224 = 14737633 / 16777216" "unorm8 242 = 15921907 / 16777216"
  by (simp_all add: unorm8_def rnd_values_computed)

lemma unorm8_one: "unorm8 (Suc 0) = 8421505 / 2147483648"
  using unorm8_values(4) by simp

lemmas f32_defs = AsciiShader_fragmentShader_f32_def asciiFragmentShader_f32_def Let_def
  div2s_32_def mul2_32_def div2_32_def fract2_32_def fract32_def dot3_32_def scale3_32_def
  fadd_def fsub_def fmul_def fdiv_def floor2_def floor_f_def rgb_def red_def alpha_def vec4_of_def
  luma_weights_values sample_uniforms_def sample_params_def





lemma run_s1:
  "AsciiShader_fragmentShader_f32 (sample_uniforms (1 / 4, 0, 0, 1) (1, 1, 1, 1))
     (1 / 2, 1 / 2) = Some
      \<lparr>gridDims = (64, 48), cellUv = (1 / 2, 1 / 2), sceneColor = (1 / 4, 0, 0, 1), luminance = 15523119 / 16777216,
       charIndex = 7, uvInCell = (0, 0), fontU = 6524473 / 8388608, fontV = 0,
       fontColor = (1, 1, 1, 1), FragColor = (1, 1, 1, 1)\<rparr>"
  by (simp add: f32_defs fin_values)

lemma run_s2:
  "AsciiShader_fragmentShader_f32 (sample_uniforms (8388609 / 33554432, 0, 0, 1) (1, 1, 1, 1))
     (1 / 2, 1 / 2) = Some
      \<lparr>gridDims = (64, 48), cellUv = (1 / 2, 1 / 2), sceneColor = (8388609 / 33554432, 0, 0, 1), luminance = 15523119 / 16777216,
       charIndex = 7, uvInCell = (0, 0), fontU = 6524473 / 8388608, fontV = 0,
       fontColor = (1, 1, 1, 1), FragColor = (1, 1, 1, 1)\<rparr>"
  by (simp add: f32_defs fin_values)

lemma run_A:
  "AsciiShader_fragmentShader_f32 (sample_uniforms (unorm8 15, unorm8 246, unorm8 92, 1) (1, 1, 1, 1))
     (1 / 2, 1 / 2) = Some
      \<lparr>gridDims = (64, 48), cellUv = (1 / 2, 1 / 2), sceneColor = (unorm8 15, unorm8 246, unorm8 92, 1), luminance = 6291455 / 16777216,
       charIndex = 2, uvInCell = (0, 0), fontU = 14913081 / 67108864, fontV = 0,
       fontColor = (1, 1, 1, 1), FragColor = (1, 1, 1, 1)\<rparr>"
  by (simp add: f32_defs fin_values unorm8_values unorm8_one)

lemma run_B:
  "AsciiShader_fragmentShader_f32 (sample_uniforms (unorm8 1, unorm8 224, unorm8 242, 1) (1, 1, 1, 1))
     (1 / 2, 1 / 2) = Some
      \<lparr>gridDims = (64, 48), cellUv = (1 / 2, 1 / 2), sceneColor = (unorm8 1, unorm8 224, unorm8 242, 1), luminance = 3 / 8,
       charIndex = 3, uvInCell = (0, 0), fontU = 11184811 / 33554432, fontV = 0,
       fontColor = (1, 1, 1, 1), FragColor = (1, 1, 1, 1)\<rparr>"
  by (simp add: f32_defs fin_values unorm8_values unorm8_one)

lemma run_dark_glsl:
  "AsciiShader_fragmentShader_f32 (sample_uniforms (1 / 4, 1 / 4, 1 / 4, 1) (1, 1, 1, 1))
     (1 / 2, 1 / 2) = Some
      \<lparr>gridDims = (64, 48), cellUv = (1 / 2, 1 / 2), sceneColor = (1 / 4, 1 / 4, 1 / 4, 1), luminance = 3 / 4,
       charIndex = 6, uvInCell = (0, 0), fontU = 11184811 / 16777216, fontV = 0,
       fontColor = (1, 1, 1, 1), FragColor = (1, 1, 1, 1)\<rparr>"
  by (simp add: f32_defs fin_values)

lemma run_bright_glsl:
  "AsciiShader_fragmentShader_f32 (sample_uniforms (3 / 4, 3 / 4, 3 / 4, 1) (1, 1, 1, 1))
     (1 / 2, 1 / 2) = Some
      \<lparr>gridDims = (64, 48), cellUv = (1 / 2, 1 / 2), sceneColor = (3 / 4, 3 / 4, 3 / 4, 1), luminance = 1 / 4,
       charIndex = 2, uvInCell = (0, 0), fontU = 14913081 / 67108864, fontV = 0,
       fontColor = (1, 1, 1, 1), FragColor = (1, 1, 1, 1)\<rparr>"
  by (simp add: f32_defs fin_values)

lemma run_dark_wgsl:
  "asciiFragmentShader_f32 (\<lambda>_. (1 / 4, 1 / 4, 1 / 4, 1)) (\<lambda>_. (1, 1, 1, 1)) sample_params
     (1 / 2, 1 / 2) = Some
      \<lparr>gridDims = (64, 48), cellUv = (1 / 2, 1 / 2), sceneColor = (1 / 4, 1 / 4, 1 / 4, 1), luminance = 3 / 4,
       charIndex = 6, uvInCell = (0, 0), fontU = 11184811 / 16777216, fontV = 0,
       fontColor = (1, 1, 1, 1), FragColor = (1 / 4, 1 / 4, 1 / 4, 1)\<rparr>"
  by (simp add: f32_defs fin_values)

lemma run_bright_wgsl:
  "asciiFragmentShader_f32 (\<lambda>_. (3 / 4, 3 / 4, 3 / 4, 1)) (\<lambda>_. (1, 1, 1, 1)) sample_params
     (1 / 2, 1 / 2) = Some
      \<lparr>gridDims = (64, 48), cellUv = (1 / 2, 1 / 2), sceneColor = (3 / 4, 3 / 4, 3 / 4, 1), luminance = 1 / 4,
       charIndex = 2, uvInCell = (0, 0), fontU = 14913081 / 67108864, fontV = 0,
       fontColor = (1, 1, 1, 1), FragColor = (3 / 4, 3 / 4, 3 / 4, 1)\<rparr>"
  by (simp add: f32_defs fin_values)

lemma brightness32_values:
  "brightness32 (1 / 4, 0, 0, 1) = 10032775 / 134217728"
  "brightness32 (8388609 / 33554432, 0, 0, 1) = 1254097 / 16777216"
  "brightness32 (1 / 4, 1 / 4, 1 / 4, 1) = 1 / 4"
  "brightness32 (3 / 4, 3 / 4, 3 / 4, 1) = 3 / 4"
  by (simp_all add: brightness32_def luma_weights_values rnd_values_computed)

section \<open>The inversion law and the atlas coordinates under rounding\<close>

text \<open>
  C2, as amended.  Of two scene samples whose brightnesses as the shader computes them,
  both in \<open>[0, 1]\<close>, satisfy \<open>a < b\<close>, the darker one has an inverted luminance at least
  that of the brighter one, possibly equal to it, and a character index at least that
  of the brighter one.  Both shaders, every character count \<open>N \<ge> 1\<close>, in runs whose
  arithmetic is finite.
\<close>

theorem inversion_law_rounded:
  "(AsciiShader_fragmentShader_f32 u v = Some f \<and> AsciiShader_fragmentShader_f32 u' v' = Some f' \<and>
    brightness32 (sceneColor f) < brightness32 (sceneColor f') \<and>
    0 \<le> brightness32 (sceneColor f) \<and> brightness32 (sceneColor f') \<le> 1 \<and>
    uCharCount u' = uCharCount u \<and> 1 \<le> uCharCount u \<longrightarrow>
      luminance f \<ge> luminance f' \<and> charIndex f \<ge> charIndex f') \<and>
   (asciiFragmentShader_f32 td tf p w = Some g \<and> asciiFragmentShader_f32 td' tf' p' w' = Some g' \<and>
    brightness32 (sceneColor g) < brightness32 (sceneColor g') \<and>
    0 \<le> brightness32 (sceneColor g) \<and> brightness32 (sceneColor g') \<le> 1 \<and>
    uCharCount p' = uCharCount p \<and> 1 \<le> uCharCount p \<longrightarrow>
      luminance g \<ge> luminance g' \<and> charIndex g \<ge> charIndex g')"
proof (intro conjI impI)
  assume a: "AsciiShader_fragmentShader_f32 u v = Some f \<and>
    AsciiShader_fragmentShader_f32 u' v' = Some f' \<and>
    brightness32 (sceneColor f) < brightness32 (sceneColor f') \<and>
    0 \<le> brightness32 (sceneColor f) \<and> brightness32 (sceneColor f') \<le> 1 \<and>
    uCharCount u' = uCharCount u \<and> 1 \<le> uCharCount u"
  then have l: "locals32 (uCharCount u) (uResolution u) (uFontSize u) v f"
    and l': "locals32 (uCharCount u) (uResolution u') (uFontSize u') v' f'"
    using glsl32_locals [of u v f] glsl32_locals [of u' v' f'] by simp_all
  from a have "luminance f' \<le> luminance f \<and> charIndex f' \<le> charIndex f"
    by (intro locals32_order [OF l l']) simp_all
  then show "luminance f' \<le> luminance f" and "charIndex f' \<le> charIndex f"
    by simp_all
next
  assume a: "asciiFragmentShader_f32 td tf p w = Some g \<and>
    asciiFragmentShader_f32 td' tf' p' w' = Some g' \<and>
    brightness32 (sceneColor g) < brightness32 (sceneColor g') \<and>
    0 \<le> brightness32 (sceneColor g) \<and> brightness32 (sceneColor g') \<le> 1 \<and>
    uCharCount p' = uCharCount p \<and> 1 \<le> uCharCount p"
  then have l: "locals32 (uCharCount p) (uResolution p) (uFontSize p) w g"
    and l': "locals32 (uCharCount p) (uResolution p') (uFontSize p') w' g'"
    using wgsl32_locals [of td tf p w g] wgsl32_locals [of td' tf' p' w' g'] by simp_all
  from a have "luminance g' \<le> luminance g \<and> charIndex g' \<le> charIndex g"
    by (intro locals32_order [OF l l']) simp_all
  then show "luminance g' \<le> luminance g" and "charIndex g' \<le> charIndex g"
    by simp_all
qed

lemma sample_counts: "uCharCount (sample_uniforms sc fc) = 9" "uCharCount sample_params = 9"
  by (simp_all add: sample_uniforms_def sample_params_def)

theorem inversion_law_rounded_witness:
  "AsciiShader_fragmentShader_f32 (sample_uniforms (1 / 4, 1 / 4, 1 / 4, 1) (1, 1, 1, 1)) (1 / 2, 1 / 2) \<noteq> None \<and>
   AsciiShader_fragmentShader_f32 (sample_uniforms (3 / 4, 3 / 4, 3 / 4, 1) (1, 1, 1, 1)) (1 / 2, 1 / 2) \<noteq> None \<and>
   brightness32 (1 / 4, 1 / 4, 1 / 4, 1) < brightness32 (3 / 4, 3 / 4, 3 / 4, 1) \<and>
   map_option luminance
     (AsciiShader_fragmentShader_f32 (sample_uniforms (1 / 4, 1 / 4, 1 / 4, 1) (1, 1, 1, 1)) (1 / 2, 1 / 2)) = Some (3 / 4) \<and>
   map_option luminance
     (AsciiShader_fragmentShader_f32 (sample_uniforms (3 / 4, 3 / 4, 3 / 4, 1) (1, 1, 1, 1)) (1 / 2, 1 / 2)) = Some (1 / 4) \<and>
   map_option charIndex
     (AsciiShader_fragmentShader_f32 (sample_uniforms (1 / 4, 1 / 4, 1 / 4, 1) (1, 1, 1, 1)) (1 / 2, 1 / 2)) = Some 6 \<and>
   map_option charIndex
     (AsciiShader_fragmentShader_f32 (sample_uniforms (3 / 4, 3 / 4, 3 / 4, 1) (1, 1, 1, 1)) (1 / 2, 1 / 2)) = Some 2 \<and>
   asciiFragmentShader_f32 (\<lambda>_. (1 / 4, 1 / 4, 1 / 4, 1)) (\<lambda>_. (1, 1, 1, 1)) sample_params (1 / 2, 1 / 2) \<noteq> None \<and>
   asciiFragmentShader_f32 (\<lambda>_. (3 / 4, 3 / 4, 3 / 4, 1)) (\<lambda>_. (1, 1, 1, 1)) sample_params (1 / 2, 1 / 2) \<noteq> None \<and>
   map_option charIndex
     (asciiFragmentShader_f32 (\<lambda>_. (1 / 4, 1 / 4, 1 / 4, 1)) (\<lambda>_. (1, 1, 1, 1)) sample_params (1 / 2, 1 / 2)) = Some 6 \<and>
   map_option charIndex
     (asciiFragmentShader_f32 (\<lambda>_. (3 / 4, 3 / 4, 3 / 4, 1)) (\<lambda>_. (1, 1, 1, 1)) sample_params (1 / 2, 1 / 2)) = Some 2"
  using inversion_law_rounded
    [where u = "sample_uniforms (1 / 4, 1 / 4, 1 / 4, 1) (1, 1, 1, 1)" and v = "(1 / 2, 1 / 2)"
      and f = "the (AsciiShader_fragmentShader_f32
                 (sample_uniforms (1 / 4, 1 / 4, 1 / 4, 1) (1, 1, 1, 1)) (1 / 2, 1 / 2))"
      and u' = "sample_uniforms (3 / 4, 3 / 4, 3 / 4, 1) (1, 1, 1, 1)" and v' = "(1 / 2, 1 / 2)"
      and f' = "the (AsciiShader_fragmentShader_f32
                 (sample_uniforms (3 / 4, 3 / 4, 3 / 4, 1) (1, 1, 1, 1)) (1 / 2, 1 / 2))"
      and td = "\<lambda>_. (1 / 4, 1 / 4, 1 / 4, 1)" and tf = "\<lambda>_. (1, 1, 1, 1)"
      and p = sample_params and w = "(1 / 2, 1 / 2)"
      and g = "the (asciiFragmentShader_f32 (\<lambda>_. (1 / 4, 1 / 4, 1 / 4, 1)) (\<lambda>_. (1, 1, 1, 1))
                 sample_params (1 / 2, 1 / 2))"
      and td' = "\<lambda>_. (3 / 4, 3 / 4, 3 / 4, 1)" and tf' = "\<lambda>_. (1, 1, 1, 1)"
      and p' = sample_params and w' = "(1 / 2, 1 / 2)"
      and g' = "the (asciiFragmentShader_f32 (\<lambda>_. (3 / 4, 3 / 4, 3 / 4, 1)) (\<lambda>_. (1, 1, 1, 1))
                 sample_params (1 / 2, 1 / 2))"]
  by (simp add: run_dark_glsl run_bright_glsl run_dark_wgsl run_bright_wgsl brightness32_values
      sample_counts)

text \<open>
  C2 as stated fails in binary32 arithmetic.  The inverted luminance is not strictly
  decreasing: the red values \<open>1/4\<close> and \<open>1/4 + 2^-25\<close> have different computed
  brightnesses and the same inverted luminance.  And the order of the exact weighted
  sums is not the order of the indices: of the 8-bit colours \<open>(15, 246, 92)\<close> and
  \<open>(1, 224, 242)\<close> the first has the smaller exact brightness and gets index 2, the
  second gets index 3.
\<close>

theorem inversion_law_fails_rounded:
  "brightness32 (1 / 4, 0, 0, 1) < brightness32 (1 / 4 + 1 / 2 ^ 25, 0, 0, 1) \<and>
   map_option luminance
     (AsciiShader_fragmentShader_f32 (sample_uniforms (1 / 4, 0, 0, 1) (1, 1, 1, 1)) (1 / 2, 1 / 2)) =
   map_option luminance
     (AsciiShader_fragmentShader_f32 (sample_uniforms (1 / 4 + 1 / 2 ^ 25, 0, 0, 1) (1, 1, 1, 1)) (1 / 2, 1 / 2)) \<and>
   luma (unorm8 15, unorm8 246, unorm8 92, 1) < luma (unorm8 1, unorm8 224, unorm8 242, 1) \<and>
   map_option charIndex
     (AsciiShader_fragmentShader_f32
        (sample_uniforms (unorm8 15, unorm8 246, unorm8 92, 1) (1, 1, 1, 1)) (1 / 2, 1 / 2)) = Some 2 \<and>
   map_option charIndex
     (AsciiShader_fragmentShader_f32
        (sample_uniforms (unorm8 1, unorm8 224, unorm8 242, 1) (1, 1, 1, 1)) (1 / 2, 1 / 2)) = Some 3"
proof -
  have "luma (unorm8 15, unorm8 246, unorm8 92, 1) < luma (unorm8 1, unorm8 224, unorm8 242, 1)"
    by (simp add: luma_def rgb_def dot3_def unorm8_values unorm8_one)
  moreover have "brightness32 (1 / 4, 0, 0, 1) < brightness32 (1 / 4 + 1 / 2 ^ 25, 0, 0, 1)"
    using brightness32_values(1,2) by simp
  ultimately show ?thesis
    using run_s1 run_s2 run_A run_B by simp
qed





section \<open>The font atlas\<close>

lemma draw_chars_size:
  "canvas_width (draw_chars i n fs cv) = canvas_width cv \<and>
   canvas_height (draw_chars i n fs cv) = canvas_height cv"
proof (induction i n fs cv rule: draw_chars.induct)
  case (1 i charCount fontSize cv)
  show ?case
  proof (cases "i < charCount")
    case True
    with "1.IH" show ?thesis
      by (simp add: draw_chars.simps [of i charCount fontSize cv] fillText_def)
  next
    case False
    then show ?thesis
      by (simp add: draw_chars.simps [of i charCount fontSize cv])
  qed
qed

lemma draw_chars_style:
  "fillStyle (draw_chars i n fs cv) = fillStyle cv \<and> font (draw_chars i n fs cv) = font cv \<and>
   textAlign (draw_chars i n fs cv) = textAlign cv \<and>
   textBaseline (draw_chars i n fs cv) = textBaseline cv"
proof (induction i n fs cv rule: draw_chars.induct)
  case (1 i charCount fontSize cv)
  show ?case
  proof (cases "i < charCount")
    case True
    with "1.IH" show ?thesis
      by (simp add: draw_chars.simps [of i charCount fontSize cv] fillText_def)
  next
    case False
    then show ?thesis
      by (simp add: draw_chars.simps [of i charCount fontSize cv])
  qed
qed

text \<open>The loop draws character \<open>k\<close> of the ramp centred in cell \<open>k\<close>, for \<open>k\<close> from \<open>i\<close>.\<close>

lemma draw_chars_drawn:
  "drawn (draw_chars i n fs cv) =
     drawn cv @ map (\<lambda>k. FillText (fillStyle cv) (font cv) (textAlign cv) (textBaseline cv)
                        (CHAR_SET ! k) (real (k * fs) + real fs / 2) (real fs / 2)) [i..<n]"
proof (induction i n fs cv rule: draw_chars.induct)
  case (1 i charCount fontSize cv)
  show ?case
  proof (cases "i < charCount")
    case True
    then have "[i..<charCount] = i # [i + 1..<charCount]"
      by (simp add: upt_conv_Cons)
    with True "1.IH" show ?thesis
      by (simp add: draw_chars.simps [of i charCount fontSize cv] fillText_def)
  next
    case False
    then show ?thesis
      by (simp add: draw_chars.simps [of i charCount fontSize cv])
  qed
qed

lemma createAsciiTexture_fails:
  assumes "\<not> context2d env"
  shows "createAsciiTexture env = Inl (Error ''Could not create 2D context for ASCII texture'')"
    and "createAsciiTexture_gpu env = Inl (Error ''Could not create 2D context for ASCII texture'')"
  using assms by (simp_all add: createAsciiTexture_def createAsciiTexture_gpu_def Let_def)

lemma createAsciiTexture_succeeds:
  assumes "context2d env"
  shows "\<exists>t. createAsciiTexture env = Inr t \<and>
           canvas_width (tex_image t) = length CHAR_SET * 64 \<and> canvas_height (tex_image t) = 64"
  using assms by (simp add: createAsciiTexture_def Let_def draw_chars_size fillRect_def)

lemma createAsciiTexture_gpu_succeeds:
  assumes "context2d env"
  shows "\<exists>g. createAsciiTexture_gpu env = Inr g \<and> gpu_size g = (length CHAR_SET * 64, 64, 1) \<and>
           canvas_width (copied g) = length CHAR_SET * 64 \<and> canvas_height (copied g) = 64"
  using assms by (simp add: createAsciiTexture_gpu_def Let_def draw_chars_size fillRect_def)

text \<open>
  The strip drawn by the builder: a black background, then character \<open>k\<close> of the ramp
  in white, centred at \<open>x = 64 k + 32\<close>, that is in the cell \<open>[64 k, 64 (k + 1))\<close>.
\<close>

lemma atlas_glyphs:
  assumes "context2d env"
  shows "\<exists>t. createAsciiTexture env = Inr t \<and>
           drawn (tex_image t) =
             FillRect ''#000000'' 0 0 (real (length CHAR_SET * 64)) 64 #
             map (\<lambda>k. FillText ''#ffffff'' ''bold 64px monospace'' ''center'' ''middle''
                        (CHAR_SET ! k) (real (k * 64) + 32) 32) [0..<length CHAR_SET]"
  using assms
  by (simp add: createAsciiTexture_def Let_def draw_chars_drawn draw_chars_size fillRect_def
      createElement_canvas_def)

section \<open>Initialisation\<close>

lemma initialize_fails:
  assumes "\<not> context2d env"
  shows "snd (initialize env el this) \<noteq> None"
    and "postMaterial (fst (initialize env el this)) = postMaterial this"
    and "webgl env \<Longrightarrow> snd (initialize env el this) =
           Some (Error ''Could not create 2D context for ASCII texture'')"
    and "webgl env \<Longrightarrow> buffer_size (fst (initialize env el this)) =
           Some (clientWidth el * devicePixelRatio env, clientHeight el * devicePixelRatio env)"
  using assms by (simp_all add: initialize_def Let_def createAsciiTexture_fails(1) buffer_size_def)

lemma initialize_no_webgl:
  assumes "\<not> webgl env"
  shows "snd (initialize env el this) \<noteq> None"
    and "postMaterial (fst (initialize env el this)) = postMaterial this"
  using assms by (simp_all add: initialize_def Let_def)

lemma initialize_succeeds:
  assumes "context2d env" and w: "webgl env"
  shows "snd (initialize env el this) = None"
    and "initialised (fst (initialize env el this))"
    and "buffer_size (fst (initialize env el this)) =
           Some (clientWidth el * devicePixelRatio env, clientHeight el * devicePixelRatio env)"
    and "resolution_param (fst (initialize env el this)) =
           Some (clientWidth el * devicePixelRatio env, clientHeight el * devicePixelRatio env)"
    and "map_option (\<lambda>pm. uFontSize (uniforms pm)) (postMaterial (fst (initialize env el this))) =
           Some (10 * devicePixelRatio env)"
proof -
  from createAsciiTexture_succeeds [OF assms(1)] obtain t where t: "createAsciiTexture env = Inr t"
    by blast
  show "snd (initialize env el this) = None"
    by (simp add: initialize_def Let_def t w)
  show "initialised (fst (initialize env el this))"
    by (simp add: initialize_def Let_def t w initialised_def)
  show "buffer_size (fst (initialize env el this)) =
           Some (clientWidth el * devicePixelRatio env, clientHeight el * devicePixelRatio env)"
    by (simp add: initialize_def Let_def t w buffer_size_def)
  show "resolution_param (fst (initialize env el this)) =
           Some (clientWidth el * devicePixelRatio env, clientHeight el * devicePixelRatio env)"
    by (simp add: initialize_def Let_def t w resolution_param_def)
  show "map_option (\<lambda>pm. uFontSize (uniforms pm)) (postMaterial (fst (initialize env el this))) =
           Some (10 * devicePixelRatio env)"
    by (simp add: initialize_def Let_def t w)
qed

lemma main_outcome:
  "render_loop (main env (Some el)) \<longleftrightarrow> snd (initialize env el new_ThreeRenderer) = None"
  "uncaught (main env (Some el)) = snd (initialize env el new_ThreeRenderer)"
  "the_renderer (main env (Some el)) = Some (fst (initialize env el new_ThreeRenderer))"
proof -
  obtain r e where i: "initialize env el new_ThreeRenderer = (r, e)"
    by (cases "initialize env el new_ThreeRenderer")
  show "render_loop (main env (Some el)) \<longleftrightarrow> snd (initialize env el new_ThreeRenderer) = None"
    by (cases e) (simp_all add: main_def i)
  show "uncaught (main env (Some el)) = snd (initialize env el new_ThreeRenderer)"
    by (cases e) (simp_all add: main_def i)
  show "the_renderer (main env (Some el)) = Some (fst (initialize env el new_ThreeRenderer))"
    by (cases e) (simp_all add: main_def i)
qed

text \<open>
  C9.  Either builder of the font atlas fails, with an error, exactly when the 2D context
  cannot be created.  On that failure there is no texture, \<open>initialize\<close> ends with an
  error, no material is created and \<open>main\<close> does not start the render loop.  On success
  the atlas is a strip of width \<open>N * 64\<close> and height \<open>64\<close> for the ramp of length \<open>N\<close>, and
  the render loop is started exactly when the WebGL renderer could be created too.
\<close>

theorem atlas_builder:
  "(isl (createAsciiTexture env) \<longleftrightarrow> \<not> context2d env) \<and>
   (isl (createAsciiTexture_gpu env) \<longleftrightarrow> \<not> context2d env) \<and>
   (\<not> context2d env \<longrightarrow>
      createAsciiTexture env = Inl (Error ''Could not create 2D context for ASCII texture'') \<and>
      createAsciiTexture_gpu env = Inl (Error ''Could not create 2D context for ASCII texture'') \<and>
      uncaught (main env (Some el)) \<noteq> None \<and>
      (webgl env \<longrightarrow> uncaught (main env (Some el)) =
         Some (Error ''Could not create 2D context for ASCII texture'')) \<and>
      \<not> render_loop (main env (Some el)) \<and>
      map_option postMaterial (the_renderer (main env (Some el))) = Some None) \<and>
   (context2d env \<longrightarrow>
      (\<exists>t. createAsciiTexture env = Inr t \<and>
           canvas_width (tex_image t) = length CHAR_SET * 64 \<and> canvas_height (tex_image t) = 64) \<and>
      (\<exists>g. createAsciiTexture_gpu env = Inr g \<and> gpu_size g = (length CHAR_SET * 64, 64, 1) \<and>
           canvas_width (copied g) = length CHAR_SET * 64 \<and> canvas_height (copied g) = 64) \<and>
      (render_loop (main env (Some el)) \<longleftrightarrow> webgl env))"
proof (cases "context2d env")
  case True
  have loop: "render_loop (main env (Some el)) \<longleftrightarrow> webgl env"
  proof (cases "webgl env")
    case w: True
    then show ?thesis
      by (simp add: main_outcome(1) initialize_succeeds(1) [OF True w])
  next
    case w: False
    then show ?thesis
      using initialize_no_webgl(1) [OF w, of el new_ThreeRenderer]
      by (simp add: main_outcome(1))
  qed
  from True have "\<not> isl (createAsciiTexture env)" "\<not> isl (createAsciiTexture_gpu env)"
    using createAsciiTexture_succeeds [OF True] createAsciiTexture_gpu_succeeds [OF True]
    by auto
  with True loop show ?thesis
    using createAsciiTexture_succeeds [OF True] createAsciiTexture_gpu_succeeds [OF True]
    by simp
next
  case False
  have m: "uncaught (main env (Some el)) \<noteq> None"
      "webgl env \<longrightarrow> uncaught (main env (Some el)) =
         Some (Error ''Could not create 2D context for ASCII texture'')"
      "\<not> render_loop (main env (Some el))"
      "map_option postMaterial (the_renderer (main env (Some el))) = Some None"
    using initialize_fails(1) [OF False, of el new_ThreeRenderer]
    by (simp_all add: main_outcome initialize_fails(2,3) [OF False] new_ThreeRenderer_def)
  show ?thesis
    using False m by (simp add: createAsciiTexture_fails)
qed

theorem atlas_builder_witness:
  "context2d sample_browser \<and> \<not> isl (createAsciiTexture sample_browser) \<and>
   \<not> isl (createAsciiTexture_gpu sample_browser) \<and>
   render_loop (main sample_browser (Some sample_element)) \<and>
   \<not> context2d no_context_browser \<and> isl (createAsciiTexture no_context_browser) \<and>
   isl (createAsciiTexture_gpu no_context_browser) \<and>
   \<not> render_loop (main no_context_browser (Some sample_element))"
proof -
  have c: "context2d sample_browser" "\<not> context2d no_context_browser" "webgl sample_browser"
      "webgl no_context_browser"
    by (simp_all add: sample_browser_def no_context_browser_def)
  show ?thesis
    using c atlas_builder [of sample_browser sample_element]
      atlas_builder [of no_context_browser sample_element]
    by simp
qed

section \<open>Resize\<close>

lemma resize_guard_fails:
  assumes "\<not> initialised this"
  shows "resize env width height this = this"
  using assms by (auto simp add: resize_def initialised_def split: option.splits)

lemma resize_guard_passes:
  assumes "renderer this = Some r" and "camera this = Some c" and "renderTarget this = Some rt"
    and "postMaterial this = Some pm"
  shows "renderTarget (resize env width height this) =
           Some (rt\<lparr>rt_width := width * devicePixelRatio env,
                    rt_height := height * devicePixelRatio env\<rparr>)"
    and "postMaterial (resize env width height this) =
           Some (pm\<lparr>uniforms := (uniforms pm)
                  \<lparr>uResolution := (width * devicePixelRatio env, height * devicePixelRatio env)\<rparr>\<rparr>)"
    and "camera (resize env width height this) = Some (c\<lparr>aspect := js_div width height\<rparr>)"
    and "renderer (resize env width height this) = Some (r\<lparr>renderer_size := (width, height)\<rparr>)"
  using assms by (simp_all add: resize_def)

lemma initialised_objects:
  assumes "initialised this"
  obtains r c rt pm where "renderer this = Some r" and "camera this = Some c"
    and "renderTarget this = Some rt" and "postMaterial this = Some pm"
  using assms by (auto simp add: initialised_def)

lemma resize_sizes:
  assumes "initialised this"
  shows "buffer_size (resize env width height this) =
           Some (width * devicePixelRatio env, height * devicePixelRatio env)"
    and "resolution_param (resize env width height this) =
           Some (width * devicePixelRatio env, height * devicePixelRatio env)"
proof -
  from assms obtain r c rt pm where o: "renderer this = Some r" "camera this = Some c"
      "renderTarget this = Some rt" "postMaterial this = Some pm"
    by (rule initialised_objects)
  show "buffer_size (resize env width height this) =
           Some (width * devicePixelRatio env, height * devicePixelRatio env)"
    by (simp add: buffer_size_def resize_guard_passes(1) [OF o])
  show "resolution_param (resize env width height this) =
           Some (width * devicePixelRatio env, height * devicePixelRatio env)"
    by (simp add: resolution_param_def resize_guard_passes(2) [OF o])
qed

text \<open>
  C7, as amended.  On a renderer whose WebGL renderer, camera, render target and material
  exist, \<open>resize\<close> sets the size of the intermediate scene buffer and the resolution
  uniform to \<open>(width, height) * devicePixelRatio\<close> and leaves \<open>uFontSize\<close>, the character
  count, the text and background colours and the two textures as they were.  On a
  renderer that lacks one of the four objects, \<open>resize\<close> changes nothing.
\<close>

theorem resize_updates_resolution_only:
  "(initialised this \<longrightarrow>
      buffer_size (resize env width height this) =
        Some (width * devicePixelRatio env, height * devicePixelRatio env) \<and>
      resolution_param (resize env width height this) =
        Some (width * devicePixelRatio env, height * devicePixelRatio env) \<and>
      (\<exists>pm pm'. postMaterial this = Some pm \<and>
         postMaterial (resize env width height this) = Some pm' \<and>
         uniforms pm' = (uniforms pm)
           \<lparr>uResolution := (width * devicePixelRatio env, height * devicePixelRatio env)\<rparr> \<and>
         uFontSize (uniforms pm') = uFontSize (uniforms pm) \<and>
         uCharCount (uniforms pm') = uCharCount (uniforms pm) \<and>
         uColor (uniforms pm') = uColor (uniforms pm) \<and>
         uBgColor (uniforms pm') = uBgColor (uniforms pm) \<and>
         tFont (uniforms pm') = tFont (uniforms pm) \<and>
         tDiffuse (uniforms pm') = tDiffuse (uniforms pm))) \<and>
   (\<not> initialised this \<longrightarrow> resize env width height this = this)"
proof (cases "initialised this")
  case True
  then obtain r c rt pm where o: "renderer this = Some r" "camera this = Some c"
      "renderTarget this = Some rt" "postMaterial this = Some pm"
    by (rule initialised_objects)
  show ?thesis
    using True by (simp add: resize_sizes [OF True] resize_guard_passes(2) [OF o] o(4))
next
  case False
  then show ?thesis
    by (simp add: resize_guard_fails)
qed

lemma sample_renderer_initialised:
  "initialised sample_renderer"
  "buffer_size sample_renderer = Some (1600, 1200)"
  "resolution_param sample_renderer = Some (1600, 1200)"
  "map_option (\<lambda>pm. uFontSize (uniforms pm)) (postMaterial sample_renderer) = Some 20"
  unfolding sample_renderer_def
  using initialize_succeeds [of sample_browser sample_element new_ThreeRenderer]
  by (simp_all add: sample_browser_def sample_element_def)




lemma new_ThreeRenderer_not_initialised:
  "\<not> initialised new_ThreeRenderer"
  "buffer_size new_ThreeRenderer = None"
  "resolution_param new_ThreeRenderer = None"
  by (simp_all add: initialised_def buffer_size_def resolution_param_def new_ThreeRenderer_def)

theorem resize_updates_resolution_only_witness:
  "initialised sample_renderer \<and>
   buffer_size (resize sample_browser 1024 768 sample_renderer) = Some (2048, 1536) \<and>
   resolution_param (resize sample_browser 1024 768 sample_renderer) = Some (2048, 1536) \<and>
   \<not> initialised new_ThreeRenderer \<and>
   resize sample_browser 1024 768 new_ThreeRenderer = new_ThreeRenderer"
proof -
  have d: "devicePixelRatio sample_browser = 2"
    by (simp add: sample_browser_def)
  show ?thesis
    using resize_updates_resolution_only [of sample_renderer sample_browser 1024 768]
      resize_updates_resolution_only [of new_ThreeRenderer sample_browser 1024 768]
    by (simp add: sample_renderer_initialised(1) new_ThreeRenderer_not_initialised(1) d)
qed

text \<open>
  C7 as stated fails for a call that the guard of \<open>resize\<close> turns away: on a fresh
  renderer nothing is set, and after an \<open>initialize\<close> that failed for want of a 2D context
  the render target exists, 1600 x 1200, and keeps that size.
\<close>

theorem resize_before_initialize:
  "resolution_param (resize sample_browser 1024 768 new_ThreeRenderer) \<noteq>
     Some (1024 * devicePixelRatio sample_browser, 768 * devicePixelRatio sample_browser) \<and>
   buffer_size (resize sample_browser 1024 768 new_ThreeRenderer) \<noteq>
     Some (1024 * devicePixelRatio sample_browser, 768 * devicePixelRatio sample_browser) \<and>
   buffer_size (fst (initialize no_context_browser sample_element new_ThreeRenderer)) =
     Some (1600, 1200) \<and>
   buffer_size (resize no_context_browser 1024 768
       (fst (initialize no_context_browser sample_element new_ThreeRenderer))) \<noteq>
     Some (1024 * devicePixelRatio no_context_browser, 768 * devicePixelRatio no_context_browser)"
proof -
  have n: "resize sample_browser 1024 768 new_ThreeRenderer = new_ThreeRenderer"
    by (rule resize_guard_fails) (rule new_ThreeRenderer_not_initialised(1))
  have c: "\<not> context2d no_context_browser"
    by (simp add: no_context_browser_def)
  have p: "postMaterial (fst (initialize no_context_browser sample_element new_ThreeRenderer)) = None"
    by (simp add: initialize_fails(2) [OF c] new_ThreeRenderer_def)
  then have "\<not> initialised (fst (initialize no_context_browser sample_element new_ThreeRenderer))"
    by (simp add: initialised_def)
  then have r: "resize no_context_browser 1024 768
       (fst (initialize no_context_browser sample_element new_ThreeRenderer)) =
     fst (initialize no_context_browser sample_element new_ThreeRenderer)"
    by (rule resize_guard_fails)
  have b: "buffer_size (fst (initialize no_context_browser sample_element new_ThreeRenderer)) =
     Some (1600, 1200)"
    using initialize_fails(4) [OF c, of sample_element new_ThreeRenderer]
    by (simp add: no_context_browser_def sample_element_def)
  have d: "devicePixelRatio no_context_browser = 2"
    by (simp add: no_context_browser_def)
  show ?thesis
    by (simp add: n r b d new_ThreeRenderer_not_initialised)
qed




end
